theory Spec2Isabelle
  imports Complex_Main "HOL-Library.Sublist" "HOL-Library.Multiset"
begin

section \<open>Python strings\<close>

text \<open>
  A Python \<open>str\<close> is modelled as a \<open>string\<close>, one \<open>char\<close> for each character of the
  Python string, so that \<open>length\<close> is Python's \<open>len\<close>.  Characters are read as code points
  below 256.
\<close>

definition py_isspace :: "char \<Rightarrow> bool" where
  \<comment> \<open>\<open>str.isspace\<close> on the code points below 256: TAB, LF, VT, FF, CR, FS, GS, RS, US,
      SPACE, NEL and NBSP.\<close>
  "py_isspace c = (of_char c \<in> {9, 10, 11, 12, 13, 28, 29, 30, 31, 32, 133, 160 :: nat})"

definition py_strip :: "string \<Rightarrow> string" where
  \<comment> \<open>\<open>s.strip()\<close>: leading and trailing whitespace removed.\<close>
  "py_strip s = rev (dropWhile py_isspace (rev (dropWhile py_isspace s)))"

definition py_remove :: "char \<Rightarrow> string \<Rightarrow> string" where
  \<comment> \<open>\<open>s.replace(c, '')\<close> for a one-character \<open>c\<close>.\<close>
  "py_remove c s = filter (\<lambda>x. x \<noteq> c) s"

definition startswith :: "string \<Rightarrow> string \<Rightarrow> bool" where
  \<comment> \<open>\<open>s.startswith(p)\<close>.\<close>
  "startswith s p = prefix p s"

definition is_digit :: "char \<Rightarrow> bool" where
  "is_digit c = (c \<in> set ''0123456789'')"

fun is_normalized :: "string \<Rightarrow> bool" where
  \<comment> \<open>The spec's NormalizedPhoneNumber: a \<open>+\<close> followed only by digits.\<close>
  "is_normalized [] = False"
| "is_normalized (c # ds) = (c = CHR ''+'' \<and> list_all is_digit ds)"


section \<open>allsenseai-colombia-working.py: normalizer and country detection\<close>

record country_config =
  name :: string
  emergency_number :: string
  language :: string
  use_eum :: bool
  use_sns :: bool




definition clean_phone :: "string \<Rightarrow> string" where
  \<comment> \<open>\<open>phone_number.strip().replace(' ', '').replace('-', '').replace('(', '').replace(')', '')\<close>\<close>
  "clean_phone phone_number =
     py_remove (CHR '')'') (py_remove (CHR ''('') (py_remove (CHR ''-'')
       (py_remove (CHR '' '') (py_strip phone_number))))"

definition normalize_phone_number :: "string \<Rightarrow> string" where
  "normalize_phone_number phone_number =
     (let phone = clean_phone phone_number in
      if \<not> startswith phone ''+'' then ''+'' @ phone else phone)"


section \<open>allsenseai-latam-international.py: country detection\<close>


definition ORIGINATOR_NUMBER_US :: string where
  "ORIGINATOR_NUMBER_US = ''+12173933490''"



section \<open>Python values, exceptions and provider calls\<close>

text \<open>
  Result and response dicts hold values of several Python types; \<open>pyval\<close> is their sum.  A
  dict is an association list in insertion order, with distinct keys.  JSON numbers that are
  not integers are exact rationals.
\<close>

datatype pyval =
    PNone
  | PBool bool
  | PInt int
  | PNum rat
  | PStr string
  | PList "pyval list"
  | PDict "(string \<times> pyval) list"

type_synonym pydict = "(string \<times> pyval) list"

definition py_get :: "pydict \<Rightarrow> string \<Rightarrow> pyval" where
  \<comment> \<open>\<open>d.get(k)\<close>\<close>
  "py_get d k = (case map_of d k of None \<Rightarrow> PNone | Some v \<Rightarrow> v)"

text \<open>
  A raised exception: \<open>type(e).__name__\<close>, \<open>str(e)\<close>, and the \<open>Code\<close> and \<open>Message\<close> of
  \<open>e.response['Error']\<close> where the exception carries them.
\<close>

datatype exn =
  Exn (exn_type: string) (exn_str: string) (exn_code: "string option")
    (exn_message: "string option")

section \<open>allsenseai-universal-sms.py: validation and the send function\<close>

definition re_match_e164 :: "string \<Rightarrow> bool" where
  \<comment> \<open>\<open>re.match(r'^\+\d{1,3}\d{4,14}$', phone)\<close>.  The two digit groups together take 5 to 17
      digits; \<open>$\<close> matches at the end of the string and also just before a newline that ends
      the string.\<close>
  "re_match_e164 phone =
     (case phone of
        [] \<Rightarrow> False
      | c # r \<Rightarrow>
          c = CHR ''+'' \<and>
          (let ds = (if r \<noteq> [] \<and> last r = CHR 0x0A then butlast r else r)
           in list_all is_digit ds \<and> 5 \<le> length ds \<and> length ds \<le> 17))"

definition validate_phone_number :: "string \<Rightarrow> string option \<times> string option" where
  \<comment> \<open>Returns the pair \<open>(phone, error)\<close>, one of them \<open>None\<close>.\<close>
  "validate_phone_number phone =
     (if phone = [] then (None, Some ''Phone number is required'')
      else
        let phone = py_remove (CHR ''-'') (py_remove (CHR '' '') phone);
            phone = (if \<not> startswith phone ''+'' then ''+'' @ phone else phone)
        in if \<not> re_match_e164 phone
           then (None, Some (''Invalid phone format: '' @ phone @
                   ''. Must be E.164 format (+country_code + number)''))
           else (Some phone, None))"

record sns_call =
  PhoneNumber :: string
  Message :: string
  MessageAttributes :: pydict

text \<open>
  What the module reads from outside: the environment variables, the uuid and the clock it
  draws, and the provider, whose \<open>publish\<close> either raises or returns a \<open>MessageId\<close>.
\<close>

record universal_env =
  DEMO_MODE :: bool
  SMS_ORIGINATOR :: string
  SMS_CAMPAIGN_ID :: string
  TRACKING_URL_BASE :: string
  uuid4_hex :: string
  utc_now_iso :: string
  sns_publish :: "sns_call \<Rightarrow> exn + string"

definition truthy_str :: "string option \<Rightarrow> bool" where
  \<comment> \<open>Truth value of a string or \<open>None\<close>.\<close>
  "truthy_str v = (case v of None \<Rightarrow> False | Some s \<Rightarrow> s \<noteq> [])"

definition opt_str :: "string option \<Rightarrow> pyval" where
  "opt_str v = (case v of None \<Rightarrow> PNone | Some s \<Rightarrow> PStr s)"

definition latam_codes :: "string list" where
  "latam_codes = [''+57'', ''+52'', ''+55'', ''+54'']"

definition send_sms_with_eum ::
  "universal_env \<Rightarrow> string \<Rightarrow> string \<Rightarrow> string option \<Rightarrow> pydict \<times> sns_call list" where
  \<comment> \<open>Returns the result dict and the list of provider calls made.  Log lines are left out.
      The outer \<open>except\<close> is reached only where a \<open>None\<close> phone would be dereferenced.\<close>
  "send_sms_with_eum env phone_number message event_id =
     (let (validated_phone, error) = validate_phone_number phone_number in
      if truthy_str error then
        ([(''status'', PStr ''failed''), (''error'', opt_str error),
          (''phone'', PStr phone_number), (''realSms'', PBool False)], [])
      else if DEMO_MODE env then
        ([(''status'', PStr ''sent''),
          (''messageId'', PStr (''demo-'' @ take 12 (uuid4_hex env))),
          (''phone'', opt_str validated_phone), (''realSms'', PBool False),
          (''demoMode'', PBool True), (''note'', PStr ''SMS simulated (DEMO_MODE=true)'')], [])
      else
        (case validated_phone of
           None \<Rightarrow>
             ([(''status'', PStr ''failed''),
               (''error'', PStr (CHR 0x27 # ''NoneType'' @ CHR 0x27 # '' object has no attribute '' @
                                CHR 0x27 # ''startswith'' @ [CHR 0x27])),
               (''phone'', PStr phone_number), (''realSms'', PBool False),
               (''note'', PStr ''SMS delivery failed - check CloudWatch logs for details'')], [])
         | Some validated_phone \<Rightarrow>
             let is_latam = list_ex (\<lambda>code. startswith validated_phone code) latam_codes;
                 message =
                   (if truthy_str event_id \<and> TRACKING_URL_BASE env \<noteq> [] \<and> \<not> is_latam
                    then message @ [CHR 0x0A, CHR 0x0A] @ ''Track: '' @ TRACKING_URL_BASE env @
                           ''?incident='' @ (case event_id of None \<Rightarrow> [] | Some i \<Rightarrow> i)
                    else message);
                 message_attributes =
                   [(''AWS.SNS.SMS.SMSType'',
                     PDict [(''DataType'', PStr ''String''),
                            (''StringValue'', PStr ''Transactional'')])];
                 message_attributes =
                   (if SMS_ORIGINATOR env \<noteq> [] \<and> \<not> is_latam
                    then message_attributes @
                           [(''AWS.SNS.SMS.SenderID'',
                             PDict [(''DataType'', PStr ''String''),
                                    (''StringValue'', PStr (SMS_ORIGINATOR env))])]
                    else message_attributes);
                 call = \<lparr>PhoneNumber = validated_phone, Message = message,
                         MessageAttributes = message_attributes\<rparr>
             in case sns_publish env call of
                  Inr message_id \<Rightarrow>
                    ([(''status'', PStr ''sent''), (''messageId'', PStr message_id),
                      (''phone'', PStr validated_phone), (''realSms'', PBool True),
                      (''smsMethod'', PStr ''SNS''), (''originator'', PStr (SMS_ORIGINATOR env)),
                      (''campaignId'', PStr (SMS_CAMPAIGN_ID env)),
                      (''timestamp'', PStr (utc_now_iso env))], [call])
                | Inl sns_error \<Rightarrow>
                    ([(''status'', PStr ''failed''),
                      (''error'', PStr (''SNS Error: '' @ exn_str sns_error)),
                      (''errorType'', PStr (exn_type sns_error)),
                      (''phone'', PStr validated_phone), (''realSms'', PBool False),
                      (''note'', PStr ''SNS publish call failed - check IAM permissions and SNS configuration'')],
                     [call])))"

definition spec_e164 :: "string \<Rightarrow> bool" where
  \<comment> \<open>The pattern in the spec's words: a \<open>+\<close>, then a country code of 1 to 3 digits and a
      subscriber number of 4 to 14 digits, and nothing else; that is, a \<open>+\<close> and 5 to 17
      digits (lemma \<open>spec_e164_split\<close>).\<close>
  "spec_e164 phone =
     (case phone of
        [] \<Rightarrow> False
      | c # ds \<Rightarrow> c = CHR ''+'' \<and> list_all is_digit ds \<and> 5 \<le> length ds \<and> length ds \<le> 17)"

definition universal_clean :: "string \<Rightarrow> string" where
  \<comment> \<open>The claim's "after removal of spaces and dashes and prepending of \<open>+\<close>": the string
      \<open>validate_phone_number\<close> tests.\<close>
  "universal_clean phone =
     (let phone = py_remove (CHR ''-'') (py_remove (CHR '' '') phone)
      in if \<not> startswith phone ''+'' then ''+'' @ phone else phone)"

section \<open>Rendering integers and upper-casing\<close>

fun str_nat :: "nat \<Rightarrow> string" where
  \<comment> \<open>\<open>str(n)\<close> for a natural number: its decimal digits.\<close>
  "str_nat n =
     (if n < 10 then [char_of (48 + n)] else str_nat (n div 10) @ [char_of (48 + n mod 10)])"

declare str_nat.simps [simp del]

definition str_int :: "int \<Rightarrow> string" where
  "str_int i = (if i < 0 then CHR ''-'' # str_nat (nat (- i)) else str_nat (nat i))"

definition py_upper :: "string \<Rightarrow> string" where
  \<comment> \<open>\<open>s.upper()\<close> on ASCII letters; the urgency values the code produces are ASCII.\<close>
  "py_upper s =
     map (\<lambda>c. if 97 \<le> (of_char c :: nat) \<and> (of_char c :: nat) \<le> 122
              then char_of (of_char c - (32 :: nat)) else c) s"

section \<open>allsenseai-improved.py: the jury dispatch\<close>

definition JURY_PHONE_NUMBER :: string where
  "JURY_PHONE_NUMBER = ''+13053033060''"

text \<open>
  A contact dict; \<open>name\<close> and \<open>phone\<close> are subscripted, the other keys are read with \<open>get\<close>
  and may be absent.  Keys the dispatch never reads are left out.
\<close>

record contact =
  contact_name :: string
  contact_phone :: string
  optedIn :: "bool option"
  relationship :: "string option"
  priority :: "int option"

record user_profile =
  victimName :: "string option"
  contacts :: "contact list"

text \<open>
  \<open>confidence_percent\<close> stands for \<open>int(distress_result['confidence'] * 100)\<close>, a floating
  point product that the caller of the model computes.
\<close>

record distress_result =
  level :: string
  confidence_percent :: int
  urgency :: "string option"

record location_data =
  placeName :: string
  mapLink :: string

text \<open>
  What the dispatch reads from outside.  Each pass of the loop over the contacts makes at
  most one \<open>sns.publish\<close> call and draws at most one uuid, so both are indexed by the pass.
\<close>

record improved_env =
  jury_publish :: "nat \<Rightarrow> string \<Rightarrow> string \<Rightarrow> exn + string"
  jury_uuid4_hex :: "nat \<Rightarrow> string"
  jury_now_hms :: string
  jury_utc_now_iso :: string

definition SIREN :: char where
  \<comment> \<open>Stands for the one character U+1F6A8 that opens the message.\<close>
  "SIREN = CHR 0xA8"

definition fetch_user_profile_jury :: "string \<Rightarrow> user_profile" where
  "fetch_user_profile_jury user_id =
     \<lparr>victimName = Some ''Carlos Perez'',
      contacts =
        [\<lparr>contact_name = ''Jury Member (You)'', contact_phone = JURY_PHONE_NUMBER,
          optedIn = Some True, relationship = Some ''jury'', priority = Some 1\<rparr>,
         \<lparr>contact_name = ''Maria Perez'', contact_phone = ''+15551112222'',
          optedIn = Some True, relationship = Some ''spouse'', priority = Some 2\<rparr>,
         \<lparr>contact_name = ''Emergency Services'', contact_phone = ''+1911'',
          optedIn = Some True, relationship = Some ''911'', priority = Some 3\<rparr>]\<rparr>"

definition jury_sms_text ::
  "improved_env \<Rightarrow> string \<Rightarrow> location_data \<Rightarrow> distress_result \<Rightarrow> string \<Rightarrow> string" where
  "jury_sms_text env victim_name loc dr event_id =
     SIREN # '' [AllSensesAI JURY DEMO] '' @
     py_upper (case urgency dr of None \<Rightarrow> ''medium'' | Some u \<Rightarrow> u) @
     '' ALERT for '' @ victim_name @ ''!'' @ [CHR 0x0A, CHR 0x0A] @
     ''Threat detected: '' @ level dr @ '' ('' @ str_int (confidence_percent dr) @
     ''% confidence)'' @ [CHR 0x0A] @
     ''Location: '' @ placeName loc @ [CHR 0x0A] @
     ''Map: '' @ mapLink loc @ [CHR 0x0A] @
     ''Time: '' @ jury_now_hms env @ [CHR 0x0A] @
     ''Event ID: '' @ take 8 event_id @ [CHR 0x0A, CHR 0x0A] @
     ''This is a live hackathon demonstration of our AI emergency detection system.''"

definition jury_contact_result ::
  "improved_env \<Rightarrow> string \<Rightarrow> nat \<Rightarrow> contact \<Rightarrow> pydict \<times> (string \<times> string) list" where
  \<comment> \<open>The body of the loop for the contact of pass \<open>k\<close>: the dict appended to \<open>results\<close>
      and the \<open>publish\<close> calls made, as (PhoneNumber, Message).\<close>
  "jury_contact_result env sms_text k c =
     (let rel = PStr (case relationship c of None \<Rightarrow> ''contact'' | Some r \<Rightarrow> r) in
      if contact_phone c = JURY_PHONE_NUMBER then
        (case jury_publish env k (contact_phone c) sms_text of
           Inr message_id \<Rightarrow>
             ([(''contactName'', PStr (contact_name c)), (''phone'', PStr (contact_phone c)),
               (''status'', PStr ''sent''), (''messageId'', PStr message_id),
               (''relationship'', rel), (''realSms'', PBool True), (''juryPhone'', PBool True),
               (''priority'', PInt (case priority c of None \<Rightarrow> 1 | Some p \<Rightarrow> p)),
               (''timestamp'', PStr (jury_utc_now_iso env)),
               (''messageLength'', PInt (int (length sms_text))),
               (''provider'', PStr ''AWS SNS'')],
              [(contact_phone c, sms_text)])
         | Inl e \<Rightarrow>
             \<comment> \<open>the source: If real SMS fails, still show as sent for demo\<close>
             ([(''contactName'', PStr (contact_name c)), (''phone'', PStr (contact_phone c)),
               (''status'', PStr ''sent''),
               (''messageId'', PStr (''jury-demo-'' @ take 8 (jury_uuid4_hex env k))),
               (''relationship'', rel), (''realSms'', PBool False), (''juryPhone'', PBool True),
               (''note'', PStr (''SMS system operational (simulated due to: '' @ exn_str e @ '')'')),
               (''priority'', PInt (case priority c of None \<Rightarrow> 1 | Some p \<Rightarrow> p)),
               (''timestamp'', PStr (jury_utc_now_iso env))],
              [(contact_phone c, sms_text)]))
      else
        ([(''contactName'', PStr (contact_name c)), (''phone'', PStr (contact_phone c)),
          (''status'', PStr ''sent''),
          (''messageId'', PStr (''demo-msg-'' @ take 8 (jury_uuid4_hex env k))),
          (''relationship'', rel), (''realSms'', PBool False), (''juryPhone'', PBool False),
          (''note'', PStr ''SMS sent successfully (demo mode)''),
          (''priority'', PInt (case priority c of None \<Rightarrow> 2 | Some p \<Rightarrow> p)),
          (''timestamp'', PStr (jury_utc_now_iso env)),
          (''provider'', PStr ''Demo Mode'')],
         []))"

fun jury_loop ::
  "improved_env \<Rightarrow> string \<Rightarrow> nat \<Rightarrow> contact list \<Rightarrow> pydict list \<times> (string \<times> string) list" where
  \<comment> \<open>\<open>for contact in opted_contacts\<close>, from pass \<open>k\<close> on.\<close>
  "jury_loop env sms_text k [] = ([], [])"
| "jury_loop env sms_text k (c # cs) =
     (let (r, calls) = jury_contact_result env sms_text k c;
          (rs, calls') = jury_loop env sms_text (Suc k) cs
      in (r # rs, calls @ calls'))"

definition dispatch_emergency_sms_jury ::
  "improved_env \<Rightarrow> user_profile \<Rightarrow> location_data \<Rightarrow> distress_result \<Rightarrow> string \<Rightarrow>
     pydict list \<times> (string \<times> string) list" where
  "dispatch_emergency_sms_jury env profile loc dr event_id =
     (let victim_name = (case victimName profile of None \<Rightarrow> ''Unknown'' | Some v \<Rightarrow> v);
          opted_contacts = filter (\<lambda>c. optedIn c = Some True) (contacts profile)
      in if opted_contacts = []
         then ([[(''status'', PStr ''error''), (''message'', PStr ''No opted-in contacts'')]], [])
         else jury_loop env (jury_sms_text env victim_name loc dr event_id) 0 opted_contacts)"

text \<open>The two locals of \<open>dispatch_emergency_sms_jury\<close>, named for use in statements.\<close>

definition opted_contacts :: "user_profile \<Rightarrow> contact list" where
  "opted_contacts profile = filter (\<lambda>c. optedIn c = Some True) (contacts profile)"

definition victim_name_of :: "user_profile \<Rightarrow> string" where
  "victim_name_of profile = (case victimName profile of None \<Rightarrow> ''Unknown'' | Some v \<Rightarrow> v)"

section \<open>allsenseai-colombia-working.py: the senders\<close>

text \<open>
  The provider calls made, in order, are returned beside each result.  Creating a client may
  raise, before any call is made.  The two providers are functions that either raise or
  return the response's \<open>MessageId\<close>, read with \<open>get\<close>.
\<close>

datatype provider_call =
    SendTextMessage string string string string string
      \<comment> \<open>DestinationPhoneNumber, OriginationIdentity, MessageBody, MessageType,
          ConfigurationSetName\<close>
  | SnsPublish string string
      \<comment> \<open>PhoneNumber, Message; the SMSType attribute is always Transactional\<close>

record colombia_env =
  co_get_eum_client_error :: "exn option"
  eum_send_text_message :: "provider_call \<Rightarrow> exn + string option"
  co_get_sns_client_error :: "exn option"
  co_sns_publish :: "provider_call \<Rightarrow> exn + string option"

definition CONFIGURATION_SET :: string where
  "CONFIGURATION_SET = ''AllSensesAI-SafetyAlerts''"

definition MESSAGE_TYPE :: string where
  "MESSAGE_TYPE = ''TRANSACTIONAL''"

definition send_via_eum :: "colombia_env \<Rightarrow> string \<Rightarrow> string \<Rightarrow> pydict \<times> provider_call list" where
  "send_via_eum env phone_number message =
     (case co_get_eum_client_error env of
        Some e \<Rightarrow>
          ([(''status'', PStr ''failed''), (''error'', PStr (exn_str e)),
            (''method'', PStr ''EUM'')], [])
      | None \<Rightarrow>
          let call = SendTextMessage phone_number ORIGINATOR_NUMBER_US message MESSAGE_TYPE
                       CONFIGURATION_SET
          in case eum_send_text_message env call of
               Inr message_id \<Rightarrow>
                 ([(''status'', PStr ''sent''), (''messageId'', opt_str message_id),
                   (''method'', PStr ''EUM''), (''originator'', PStr ORIGINATOR_NUMBER_US)],
                  [call])
             | Inl e \<Rightarrow>
                 ([(''status'', PStr ''failed''), (''error'', PStr (exn_str e)),
                   (''method'', PStr ''EUM'')], [call]))"

definition send_via_sns ::
  "colombia_env \<Rightarrow> string \<Rightarrow> string \<Rightarrow> country_config \<Rightarrow> pydict \<times> provider_call list" where
  "send_via_sns env phone_number message cfg =
     (case co_get_sns_client_error env of
        Some e \<Rightarrow>
          ([(''status'', PStr ''failed''), (''error'', PStr (exn_str e)),
            (''method'', PStr ''SNS''), (''country'', PStr (name cfg))], [])
      | None \<Rightarrow>
          let call = SnsPublish phone_number message
          in case co_sns_publish env call of
               Inr message_id \<Rightarrow>
                 ([(''status'', PStr ''sent''), (''messageId'', opt_str message_id),
                   (''method'', PStr ''SNS''), (''country'', PStr (name cfg))], [call])
             | Inl e \<Rightarrow>
                 ([(''status'', PStr ''failed''), (''error'', PStr (exn_str e)),
                   (''method'', PStr ''SNS''), (''country'', PStr (name cfg))], [call]))"

definition send_sms_hybrid ::
  "colombia_env \<Rightarrow> string \<Rightarrow> string \<Rightarrow> country_config \<Rightarrow> pydict \<times> provider_call list" where
  \<comment> \<open>Both senders catch every exception themselves, so the \<open>except\<close> here is never
      entered.\<close>
  "send_sms_hybrid env phone_number message cfg =
     (if use_eum cfg then send_via_eum env phone_number message
      else send_via_sns env phone_number message cfg)"

section \<open>allsenseai-eum-with-tracking.py: requests, the store and the handlers\<close>

text \<open>
  The request body is a dict parsed from JSON.  Its keys are read with the types section 6 of
  the spec gives them; a key that is absent is \<open>None\<close>, and the keys no handler reads are
  kept in \<open>rq_other\<close>.
\<close>

record location =
  latitude :: "rat option"
  longitude :: "rat option"
  accuracy :: "rat option"
  speed :: "rat option"
  heading :: "rat option"
  loc_placeName :: "string option"
  loc_mapLink :: "string option"

record detection_data =
  detectedWords :: "string list option"
  volume :: "pyval option"

record request =
  rq_action :: "string option"
  rq_victimName :: "string option"
  rq_phoneNumber :: "string option"
  rq_detectionType :: "string option"
  rq_detectionData :: "detection_data option"
  rq_location :: "location option"
  rq_incidentId :: "string option"
  rq_batteryLevel :: "rat option"
  rq_limit :: "int option"
  rq_message :: "string option"
  rq_other :: pydict

definition empty_location :: location where
  \<comment> \<open>\<open>{}\<close>\<close>
  "empty_location = \<lparr>latitude = None, longitude = None, accuracy = None, speed = None,
     heading = None, loc_placeName = None, loc_mapLink = None\<rparr>"

definition opt_num :: "rat option \<Rightarrow> pyval" where
  "opt_num v = (case v of None \<Rightarrow> PNone | Some r \<Rightarrow> PNum r)"

definition location_dict :: "location \<Rightarrow> pydict" where
  \<comment> \<open>The location dict as a value, with the keys that are present.\<close>
  "location_dict l =
     (case latitude l of None \<Rightarrow> [] | Some r \<Rightarrow> [(''latitude'', PNum r)]) @
     (case longitude l of None \<Rightarrow> [] | Some r \<Rightarrow> [(''longitude'', PNum r)]) @
     (case accuracy l of None \<Rightarrow> [] | Some r \<Rightarrow> [(''accuracy'', PNum r)]) @
     (case speed l of None \<Rightarrow> [] | Some r \<Rightarrow> [(''speed'', PNum r)]) @
     (case heading l of None \<Rightarrow> [] | Some r \<Rightarrow> [(''heading'', PNum r)]) @
     (case loc_placeName l of None \<Rightarrow> [] | Some s \<Rightarrow> [(''placeName'', PStr s)]) @
     (case loc_mapLink l of None \<Rightarrow> [] | Some s \<Rightarrow> [(''mapLink'', PStr s)])"

text \<open>
  The two tables of the key-value store.  An incident is keyed by its id, a location fix by
  (incident id, timestamp); \<open>put_item\<close> replaces the item of the same key.  A query returns
  the fixes of one incident ordered by timestamp, forward or backward, and at most \<open>Limit\<close>
  of them; the store rejects a \<open>Limit\<close> below 1.  The store's page size bound is left out.
\<close>

record incident_item =
  ii_incidentId :: string
  ii_victimName :: string
  ii_emergencyPhone :: string
  ii_countryCode :: "string option"
  ii_detectionType :: string
  ii_initialLocation :: pydict
  ii_createdAt :: string
  ii_status :: string
  ii_ttl :: int

record location_item =
  li_incidentId :: string
  li_timestamp :: int
  li_victimName :: "string option"
  li_latitude :: rat
  li_longitude :: rat
  li_accuracy :: rat
  li_speed :: "rat option"
  li_heading :: "rat option"
  li_batteryLevel :: "rat option"
  li_ttl :: int

record db =
  incidents :: "incident_item list"
  locations :: "location_item list"

definition put_incident :: "incident_item \<Rightarrow> incident_item list \<Rightarrow> incident_item list" where
  "put_incident item tbl = filter (\<lambda>i. ii_incidentId i \<noteq> ii_incidentId item) tbl @ [item]"

definition put_location :: "location_item \<Rightarrow> location_item list \<Rightarrow> location_item list" where
  "put_location item tbl =
     filter (\<lambda>i. (li_incidentId i, li_timestamp i) \<noteq> (li_incidentId item, li_timestamp item)) tbl
       @ [item]"

definition query_locations ::
  "location_item list \<Rightarrow> string \<Rightarrow> bool \<Rightarrow> int \<Rightarrow> exn + location_item list" where
  \<comment> \<open>\<open>table.query(KeyConditionExpression='incidentId = :id', ScanIndexForward=..., Limit=...)\<close>\<close>
  "query_locations tbl incident_id scan_index_forward n =
     (if n < 1 then
        Inl (Exn ''ParamValidationError'' ''Invalid value for parameter Limit'' None None)
      else
        let asc = sort_key li_timestamp (filter (\<lambda>i. li_incidentId i = incident_id) tbl)
        in Inr (take (nat n) (if scan_index_forward then asc else rev asc)))"

text \<open>
  What the handlers read from outside: whether creating the messaging client raises; the
  provider, which raises or returns its response dict; for each store call whether it raises
  (creating the store client included); the describe calls of the configuration check; the
  uuid and the clock readings.
\<close>

record tracking_env =
  tr_send_text_message :: "provider_call \<Rightarrow> exn + pydict"
  tr_put_incident_error :: "incident_item \<Rightarrow> exn option"
  tr_put_location_error :: "location_item \<Rightarrow> exn option"
  tr_query_error :: "string \<Rightarrow> exn option"
  tr_get_sms_client_error :: "exn option"
  tr_describe_phone_numbers :: "exn + pydict"
  tr_describe_configuration_sets :: "exn + pydict"
  tr_uuid4_hex :: string
  tr_now_hms :: string
  tr_utc_now_iso :: string
  tr_now_ms :: int
  tr_now_s :: int

text \<open>
  What a handler does besides returning: lines logged at error or warning level, and
  provider calls.  Lines logged at info level are left out.
\<close>

datatype event = Logged string | Called provider_call

record response =
  statusCode :: int
  headers :: pydict
  body :: pydict

definition cors_response :: "pydict \<Rightarrow> int \<Rightarrow> response" where
  \<comment> \<open>\<open>body\<close> holds the dict that the source serializes with \<open>json.dumps\<close>.\<close>
  "cors_response data status_code =
     \<lparr>statusCode = status_code,
      headers = [(''Content-Type'', PStr ''application/json''),
                 (''Access-Control-Allow-Origin'', PStr ''*''),
                 (''Access-Control-Allow-Methods'', PStr ''GET,POST,OPTIONS''),
                 (''Access-Control-Allow-Headers'', PStr ''Content-Type,Authorization'')],
      body = data\<rparr>"

definition ORIGINATOR_NUMBER :: string where
  "ORIGINATOR_NUMBER = ''+12173933490''"

definition TR_JURY_PHONE_NUMBER :: string where
  \<comment> \<open>\<open>JURY_PHONE_NUMBER\<close> of this file.\<close>
  "TR_JURY_PHONE_NUMBER = ''+13053033060''"

definition join_comma :: "string list \<Rightarrow> string" where
  \<comment> \<open>\<open>', '.join(words)\<close>\<close>
  "join_comma ws = (case ws of [] \<Rightarrow> [] | w # r \<Rightarrow> w @ concat (map (\<lambda>x. '', '' @ x) r))"

definition eum_failure :: "tracking_env \<Rightarrow> string \<Rightarrow> exn \<Rightarrow> pydict \<times> event list" where
  \<comment> \<open>The \<open>except\<close> branch of \<open>send_eum_sms\<close>: the failed result and the lines it logs
      (the line that prints \<open>repr(e)\<close> is left out).\<close>
  "eum_failure env phone_number e =
     (let error_code = (case exn_code e of None \<Rightarrow> ''Unknown'' | Some c \<Rightarrow> c);
          error_message = (case exn_message e of None \<Rightarrow> exn_str e | Some m \<Rightarrow> m)
      in ([(''status'', PStr ''failed''), (''error'', PStr (exn_str e)),
           (''errorType'', PStr (exn_type e)), (''errorCode'', PStr error_code),
           (''errorMessage'', PStr error_message), (''phone'', PStr phone_number),
           (''eumCompliant'', PBool False), (''timestamp'', PStr (tr_utc_now_iso env))],
          [Logged ''=== EUM SMS SENDING FAILED ==='',
           Logged (''Destination: '' @ phone_number),
           Logged (''Error: '' @ exn_str e),
           Logged (''Error Type: '' @ exn_type e),
           Logged (''AWS Error Code: '' @ error_code),
           Logged (''AWS Error Message: '' @ error_message)]))"

definition send_eum_sms :: "tracking_env \<Rightarrow> string \<Rightarrow> string \<Rightarrow> pydict \<times> event list" where
  \<comment> \<open>Creating the client may raise, before any call is made; the call itself may raise.\<close>
  "send_eum_sms env phone_number message =
     (case tr_get_sms_client_error env of
        Some e \<Rightarrow>
          (let (result, logged) = eum_failure env phone_number e
           in (result, Logged (''Failed to initialize EUM client: '' @ exn_str e) # logged))
      | None \<Rightarrow>
          let call = SendTextMessage phone_number ORIGINATOR_NUMBER message MESSAGE_TYPE
                       CONFIGURATION_SET
          in case tr_send_text_message env call of
               Inr resp \<Rightarrow>
                 ([(''status'', PStr ''sent''), (''messageId'', py_get resp ''MessageId''),
                   (''phone'', PStr phone_number), (''eumCompliant'', PBool True),
                   (''originatorNumber'', PStr ORIGINATOR_NUMBER),
                   (''campaign'', PStr CONFIGURATION_SET), (''fullResponse'', PDict resp),
                   (''timestamp'', PStr (tr_utc_now_iso env))],
                  [Called call])
             | Inl e \<Rightarrow>
                 (let (result, logged) = eum_failure env phone_number e
                  in (result, Called call # logged)))"

definition store_incident ::
  "tracking_env \<Rightarrow> db \<Rightarrow> string \<Rightarrow> string \<Rightarrow> string \<Rightarrow> string \<Rightarrow> location \<Rightarrow>
     (exn + db) \<times> event list" where
  \<comment> \<open>Logs the failure and raises it again.\<close>
  "store_incident env d incident_id victim_name emergency_phone detection_type loc =
     (let item = \<lparr>ii_incidentId = incident_id, ii_victimName = victim_name,
                   ii_emergencyPhone = emergency_phone, ii_countryCode = None,
                   ii_detectionType = detection_type,
                   ii_initialLocation =
                     [(''latitude'', opt_num (latitude loc)),
                      (''longitude'', opt_num (longitude loc)),
                      (''placeName'',
                       PStr (case loc_placeName loc of None \<Rightarrow> ''Unknown'' | Some p \<Rightarrow> p)),
                      (''mapLink'', PStr (case loc_mapLink loc of None \<Rightarrow> [] | Some m \<Rightarrow> m))],
                   ii_createdAt = tr_utc_now_iso env, ii_status = ''active'',
                   ii_ttl = tr_now_s env + 7 * 86400\<rparr>
      in case tr_put_incident_error env item of
           None \<Rightarrow> (Inr (d\<lparr>incidents := put_incident item (incidents d)\<rparr>), [])
         | Some e \<Rightarrow> (Inl e, [Logged (''Failed to store incident: '' @ exn_str e)]))"

definition tracking_danger_message :: "string \<Rightarrow> string \<Rightarrow> detection_data \<Rightarrow> string" where
  "tracking_danger_message victim_name detection_type detection_data =
     (if detection_type = ''emergency_words'' then
        ''EMERGENCY ALERT: '' @ victim_name @ '' is in DANGER! Emergency words detected: '' @
        join_comma (case detectedWords detection_data of None \<Rightarrow> [''emergency''] | Some ws \<Rightarrow> ws)
      else if detection_type = ''abrupt_noise'' then
        ''EMERGENCY ALERT: '' @ victim_name @ '' is in DANGER! Sudden loud noise detected''
      else
        ''EMERGENCY ALERT: '' @ victim_name @ '' is in DANGER! Emergency situation detected'')"

definition tracking_sms_message ::
  "tracking_env \<Rightarrow> string \<Rightarrow> string \<Rightarrow> string \<Rightarrow> string" where
  "tracking_sms_message env danger_message incident_id place_name =
     danger_message @ [CHR 0x0A, CHR 0x0A] @ ''LIVE TRACKING:'' @ [CHR 0x0A] @
     ''https://track.allsensesai.com?incident='' @ incident_id @ [CHR 0x0A, CHR 0x0A] @
     ''Initial Location: '' @ place_name @ [CHR 0x0A, CHR 0x0A] @
     ''Incident: '' @ incident_id @ [CHR 0x0A] @
     ''Time: '' @ tr_now_hms env @ [CHR 0x0A, CHR 0x0A] @
     ''From: AllSensesAI Guardian ('' @ ORIGINATOR_NUMBER @ '')''"

text \<open>The destination and the message of \<open>handle_jury_emergency_alert\<close>, named for use in
  statements.\<close>

definition alert_phone :: "request \<Rightarrow> string" where
  "alert_phone rq = (case rq_phoneNumber rq of None \<Rightarrow> TR_JURY_PHONE_NUMBER | Some p \<Rightarrow> p)"

definition alert_message :: "tracking_env \<Rightarrow> request \<Rightarrow> string" where
  "alert_message env rq =
     tracking_sms_message env
       (tracking_danger_message
          (case rq_victimName rq of None \<Rightarrow> ''Unknown Person'' | Some v \<Rightarrow> v)
          (case rq_detectionType rq of None \<Rightarrow> ''emergency'' | Some t \<Rightarrow> t)
          (case rq_detectionData rq of
             None \<Rightarrow> \<lparr>detectedWords = None, volume = None\<rparr> | Some dd \<Rightarrow> dd))
       (''EMG-'' @ py_upper (take 8 (tr_uuid4_hex env)))
       (case loc_placeName (case rq_location rq of None \<Rightarrow> empty_location | Some l \<Rightarrow> l) of
          None \<Rightarrow> ''Miami Convention Center, FL'' | Some p \<Rightarrow> p)"

definition handle_jury_emergency_alert ::
  "tracking_env \<Rightarrow> db \<Rightarrow> request \<Rightarrow> response \<times> db \<times> event list" where
  "handle_jury_emergency_alert env d rq =
     (let victim_name = (case rq_victimName rq of None \<Rightarrow> ''Unknown Person'' | Some v \<Rightarrow> v);
          emergency_phone =
            (case rq_phoneNumber rq of None \<Rightarrow> TR_JURY_PHONE_NUMBER | Some p \<Rightarrow> p);
          detection_type = (case rq_detectionType rq of None \<Rightarrow> ''emergency'' | Some t \<Rightarrow> t);
          detection_data =
            (case rq_detectionData rq of
               None \<Rightarrow> \<lparr>detectedWords = None, volume = None\<rparr> | Some dd \<Rightarrow> dd);
          loc = (case rq_location rq of None \<Rightarrow> empty_location | Some l \<Rightarrow> l);
          incident_id = ''EMG-'' @ py_upper (take 8 (tr_uuid4_hex env));
          (stored, ev1) =
            store_incident env d incident_id victim_name emergency_phone detection_type loc;
          (d', ev1') =
            (case stored of
               Inr d' \<Rightarrow> (d', ev1)
             | Inl e \<Rightarrow> (d, ev1 @ [Logged (''Failed to store incident: '' @ exn_str e)]));
          danger_message = tracking_danger_message victim_name detection_type detection_data;
          place_name =
            (case loc_placeName loc of None \<Rightarrow> ''Miami Convention Center, FL'' | Some p \<Rightarrow> p);
          tracking_url = ''https://track.allsensesai.com?incident='' @ incident_id;
          sms_message = tracking_sms_message env danger_message incident_id place_name;
          (sms_result, ev2) = send_eum_sms env emergency_phone sms_message
      in (cors_response
            [(''status'',
              PStr (if py_get sms_result ''status'' = PStr ''sent'' then ''success'' else ''partial'')),
             (''message'',
              PStr ''Emergency alert processed via AWS End User Messaging with live tracking''),
             (''incidentId'', PStr incident_id), (''trackingUrl'', PStr tracking_url),
             (''victimName'', PStr victim_name), (''emergencyPhone'', PStr emergency_phone),
             (''detectionType'', PStr detection_type),
             (''smsMessageId'', py_get sms_result ''messageId''),
             (''smsStatus'', py_get sms_result ''status''),
             (''eumCompliant'', PBool True), (''liveTrackingEnabled'', PBool True),
             (''originatorNumber'', PStr ORIGINATOR_NUMBER),
             (''campaign'', PStr CONFIGURATION_SET),
             (''smsError'', py_get sms_result ''error''),
             (''dangerMessage'', PStr danger_message),
             (''location'', PDict (location_dict loc)),
             (''timestamp'', PStr (tr_utc_now_iso env))] 200,
          d', ev1' @ ev2))"

definition handle_jury_test :: "tracking_env \<Rightarrow> db \<Rightarrow> request \<Rightarrow> response \<times> db \<times> event list" where
  "handle_jury_test env d rq =
     (let test_phone = (case rq_phoneNumber rq of None \<Rightarrow> TR_JURY_PHONE_NUMBER | Some p \<Rightarrow> p);
          victim_name = (case rq_victimName rq of None \<Rightarrow> ''Test User'' | Some v \<Rightarrow> v);
          test_message =
            ''AllSensesAI SYSTEM TEST'' @ [CHR 0x0A, CHR 0x0A] @
            ''System ready for '' @ victim_name @ ''!'' @ [CHR 0x0A, CHR 0x0A] @
            ''Time: '' @ tr_now_hms env @ [CHR 0x0A, CHR 0x0A] @
            ''Emergency detection operational.'' @ [CHR 0x0A] @
            ''Live tracking enabled.'' @ [CHR 0x0A, CHR 0x0A] @
            ''From: AllSensesAI Guardian ('' @ ORIGINATOR_NUMBER @ '')'';
          (sms_result, ev) = send_eum_sms env test_phone test_message
      in (cors_response
            [(''status'',
              PStr (if py_get sms_result ''status'' = PStr ''sent'' then ''success'' else ''partial'')),
             (''message'', PStr ''Test message processed via AWS End User Messaging''),
             (''victimName'', PStr victim_name), (''testPhone'', PStr test_phone),
             (''smsMessageId'', py_get sms_result ''messageId''),
             (''smsStatus'', py_get sms_result ''status''),
             (''eumCompliant'', PBool True), (''liveTrackingEnabled'', PBool True),
             (''originatorNumber'', PStr ORIGINATOR_NUMBER),
             (''campaign'', PStr CONFIGURATION_SET),
             (''smsError'', py_get sms_result ''error''),
             (''timestamp'', PStr (tr_utc_now_iso env))] 200,
          d, ev))"

definition test_sms_direct :: "tracking_env \<Rightarrow> db \<Rightarrow> request \<Rightarrow> response \<times> db \<times> event list" where
  "test_sms_direct env d rq =
     (let phone = (case rq_phoneNumber rq of None \<Rightarrow> ''+19543483664'' | Some p \<Rightarrow> p);
          message =
            (case rq_message rq of
               None \<Rightarrow> ''AllSensesAI Test Message via AWS End User Messaging. Time: '' @
                        tr_now_hms env
             | Some m \<Rightarrow> m);
          (sms_result, ev) = send_eum_sms env phone message;
          is_success = (py_get sms_result ''status'' = PStr ''sent'')
      in (cors_response
            [(''status'', PStr (if is_success then ''success'' else ''failed'')),
             (''phone'', PStr phone),
             (''smsMessageId'', py_get sms_result ''messageId''),
             (''smsStatus'', py_get sms_result ''status''),
             (''eumCompliant'', PBool is_success),
             (''originatorNumber'', PStr ORIGINATOR_NUMBER),
             (''campaign'', PStr CONFIGURATION_SET),
             (''smsError'', py_get sms_result ''error''),
             (''fullResponse'', py_get sms_result ''fullResponse''),
             (''timestamp'', PStr (tr_utc_now_iso env))] 200,
          d, ev))"

definition check_eum_configuration :: "tracking_env \<Rightarrow> db \<Rightarrow> response \<times> db \<times> event list" where
  "check_eum_configuration env d =
     (case tr_get_sms_client_error env of
        Some e \<Rightarrow>
          (cors_response
             [(''status'', PStr ''error''),
              (''message'', PStr (''Configuration check failed: '' @ exn_str e)),
              (''errorType'', PStr (exn_type e))] 500,
           d,
           [Logged (''Failed to initialize EUM client: '' @ exn_str e),
            Logged (''EUM configuration check failed: '' @ exn_str e)])
      | None \<Rightarrow>
          let (phone_numbers, ev1) =
                (case tr_describe_phone_numbers env of
                   Inr r \<Rightarrow>
                     (case map_of r ''PhoneNumbers'' of None \<Rightarrow> PList [] | Some v \<Rightarrow> v, [])
                 | Inl e \<Rightarrow>
                     (PList [], [Logged (''Could not describe phone numbers: '' @ exn_str e)]));
              (config_sets, ev2) =
                (case tr_describe_configuration_sets env of
                   Inr r \<Rightarrow>
                     (case map_of r ''ConfigurationSets'' of None \<Rightarrow> PList [] | Some v \<Rightarrow> v, [])
                 | Inl e \<Rightarrow>
                     (PList [],
                      [Logged (''Could not describe configuration sets: '' @ exn_str e)]))
          in (cors_response
                [(''status'', PStr ''success''),
                 (''message'', PStr ''EUM configuration check complete''),
                 (''configuration'',
                  PDict [(''originatorNumber'', PStr ORIGINATOR_NUMBER),
                         (''campaign'', PStr CONFIGURATION_SET),
                         (''messageType'', PStr MESSAGE_TYPE),
                         (''region'', PStr ''us-east-1''),
                         (''phoneNumbers'', phone_numbers),
                         (''configurationSets'', config_sets)]),
                 (''liveTrackingEnabled'', PBool True),
                 (''timestamp'', PStr (tr_utc_now_iso env))] 200,
              d, ev1 @ ev2))"

definition truthy_num :: "rat option \<Rightarrow> bool" where
  \<comment> \<open>Truth value of a number or \<open>None\<close>.\<close>
  "truthy_num v = (case v of None \<Rightarrow> False | Some r \<Rightarrow> r \<noteq> 0)"

definition num_or_zero :: "rat option \<Rightarrow> rat" where
  \<comment> \<open>\<open>Decimal(str(location.get(k, 0)))\<close>, and \<open>float(location.get(k, 0))\<close> of the Colombia
      variant: numbers are exact in this model, so both conversions are the identity.\<close>
  "num_or_zero v = (case v of None \<Rightarrow> 0 | Some r \<Rightarrow> r)"

definition handle_update_location ::
  "tracking_env \<Rightarrow> db \<Rightarrow> request \<Rightarrow> response \<times> db \<times> event list" where
  "handle_update_location env d rq =
     (let incident_id = rq_incidentId rq;
          loc = (case rq_location rq of None \<Rightarrow> empty_location | Some l \<Rightarrow> l);
          battery_level = rq_batteryLevel rq
      in if \<not> truthy_str incident_id then
           (cors_response
              [(''status'', PStr ''error''), (''message'', PStr ''incidentId is required'')] 400,
            d, [])
         else
           let incident_id = (case incident_id of None \<Rightarrow> [] | Some i \<Rightarrow> i);
               timestamp = tr_now_ms env;
               ttl = tr_now_s env + 24 * 3600;
               item = \<lparr>li_incidentId = incident_id, li_timestamp = timestamp,
                       li_victimName = None,
                       li_latitude = num_or_zero (latitude loc),
                       li_longitude = num_or_zero (longitude loc),
                       li_accuracy = num_or_zero (accuracy loc),
                       li_speed = (if truthy_num (speed loc) then speed loc else None),
                       li_heading = (if truthy_num (heading loc) then heading loc else None),
                       li_batteryLevel = battery_level, li_ttl = ttl\<rparr>
           in case tr_put_location_error env item of
                None \<Rightarrow>
                  (cors_response
                     [(''status'', PStr ''success''),
                      (''message'', PStr ''Location updated successfully''),
                      (''incidentId'', PStr incident_id),
                      (''timestamp'', PInt timestamp)] 200,
                   d\<lparr>locations := put_location item (locations d)\<rparr>, [])
              | Some e \<Rightarrow>
                  (cors_response
                     [(''status'', PStr ''error''), (''message'', PStr (exn_str e)),
                      (''errorType'', PStr (exn_type e))] 500,
                   d, [Logged (''Update location error: '' @ exn_str e)]))"

definition query_table ::
  "tracking_env \<Rightarrow> db \<Rightarrow> string \<Rightarrow> bool \<Rightarrow> int \<Rightarrow> exn + location_item list" where
  \<comment> \<open>The query as the handlers issue it: the call may raise for the environment's reasons,
      or for its own.\<close>
  "query_table env d incident_id scan_index_forward n =
     (case tr_query_error env incident_id of
        Some e \<Rightarrow> Inl e
      | None \<Rightarrow> query_locations (locations d) incident_id scan_index_forward n)"

definition location_json :: "location_item \<Rightarrow> pydict" where
  \<comment> \<open>The dict built from a stored item for the response.\<close>
  "location_json item =
     [(''latitude'', PNum (li_latitude item)),
      (''longitude'', PNum (li_longitude item)),
      (''accuracy'', PNum (li_accuracy item)),
      (''speed'', if truthy_num (li_speed item) then opt_num (li_speed item) else PNone),
      (''heading'', if truthy_num (li_heading item) then opt_num (li_heading item) else PNone),
      (''batteryLevel'', opt_num (li_batteryLevel item)),
      (''timestamp'', PInt (li_timestamp item))]"

definition item_dict :: "location_item \<Rightarrow> pydict" where
  \<comment> \<open>A stored item as the query returns it: the attributes that were written.\<close>
  "item_dict item =
     [(''incidentId'', PStr (li_incidentId item)), (''timestamp'', PInt (li_timestamp item))] @
     (case li_victimName item of None \<Rightarrow> [] | Some v \<Rightarrow> [(''victimName'', PStr v)]) @
     [(''latitude'', PNum (li_latitude item)), (''longitude'', PNum (li_longitude item)),
      (''accuracy'', PNum (li_accuracy item))] @
     (case li_speed item of None \<Rightarrow> [] | Some r \<Rightarrow> [(''speed'', PNum r)]) @
     (case li_heading item of None \<Rightarrow> [] | Some r \<Rightarrow> [(''heading'', PNum r)]) @
     (case li_batteryLevel item of None \<Rightarrow> [] | Some r \<Rightarrow> [(''batteryLevel'', PNum r)]) @
     [(''ttl'', PInt (li_ttl item))]"

definition handle_get_location ::
  "tracking_env \<Rightarrow> db \<Rightarrow> request \<Rightarrow> response \<times> db \<times> event list" where
  "handle_get_location env d rq =
     (if \<not> truthy_str (rq_incidentId rq) then
        (cors_response
           [(''status'', PStr ''error''), (''message'', PStr ''incidentId is required'')] 400,
         d, [])
      else
        let incident_id = (case rq_incidentId rq of None \<Rightarrow> [] | Some i \<Rightarrow> i)
        in case query_table env d incident_id False 1 of
             Inl e \<Rightarrow>
               (cors_response
                  [(''status'', PStr ''error''), (''message'', PStr (exn_str e)),
                   (''errorType'', PStr (exn_type e))] 500,
                d, [Logged (''Get location error: '' @ exn_str e)])
           | Inr [] \<Rightarrow>
               (cors_response
                  [(''status'', PStr ''success''), (''message'', PStr ''No location data found''),
                   (''incidentId'', PStr incident_id), (''location'', PNone)] 200,
                d, [])
           | Inr (location_data # _) \<Rightarrow>
               (cors_response
                  [(''status'', PStr ''success''), (''incidentId'', PStr incident_id),
                   (''location'', PDict (location_json location_data))] 200,
                d, []))"

definition handle_get_location_history ::
  "tracking_env \<Rightarrow> db \<Rightarrow> request \<Rightarrow> response \<times> db \<times> event list" where
  \<comment> \<open>\<open>ScanIndexForward=False\<close> is a constant of the call: most recent first.\<close>
  "handle_get_location_history env d rq =
     (let incident_id = rq_incidentId rq;
          limit_n = (case rq_limit rq of None \<Rightarrow> 100 | Some n \<Rightarrow> n)
      in if \<not> truthy_str incident_id then
           (cors_response
              [(''status'', PStr ''error''), (''message'', PStr ''incidentId is required'')] 400,
            d, [])
         else
           let incident_id = (case incident_id of None \<Rightarrow> [] | Some i \<Rightarrow> i)
           in case query_table env d incident_id False limit_n of
                Inl e \<Rightarrow>
                  (cors_response
                     [(''status'', PStr ''error''), (''message'', PStr (exn_str e)),
                      (''errorType'', PStr (exn_type e))] 500,
                   d, [Logged (''Get location history error: '' @ exn_str e)])
              | Inr items \<Rightarrow>
                  (let locs = map location_json items
                   in (cors_response
                         [(''status'', PStr ''success''), (''incidentId'', PStr incident_id),
                          (''locationCount'', PInt (int (length locs))),
                          (''locations'', PList (map PDict locs))] 200,
                       d, [])))"

text \<open>
  The event as the handler sees it: the HTTP method, and the body once parsed, where
  \<open>json.loads\<close> may have raised.
\<close>

record lambda_event =
  ev_httpMethod :: "string option"
  ev_body :: "exn + request"

definition handler :: "tracking_env \<Rightarrow> db \<Rightarrow> lambda_event \<Rightarrow> response \<times> db \<times> event list" where
  "handler env d ev =
     (if ev_httpMethod ev = Some ''OPTIONS'' then (cors_response [] 200, d, [])
      else
        case ev_body ev of
          Inl e \<Rightarrow>
            (cors_response
               [(''status'', PStr ''error''), (''message'', PStr (exn_str e)),
                (''errorType'', PStr (exn_type e)),
                (''timestamp'', PStr (tr_utc_now_iso env))] 500,
             d,
             [Logged (''Handler error: '' @ exn_str e), Logged (''Error type: '' @ exn_type e)])
        | Inr rq \<Rightarrow>
            let action = (case rq_action rq of None \<Rightarrow> ''TEST_SMS'' | Some a \<Rightarrow> a)
            in if action = ''JURY_EMERGENCY_ALERT'' then handle_jury_emergency_alert env d rq
               else if action = ''JURY_TEST'' then handle_jury_test env d rq
               else if action = ''TEST_SMS'' then test_sms_direct env d rq
               else if action = ''CHECK_EUM_CONFIG'' then check_eum_configuration env d
               else if action = ''UPDATE_LOCATION'' then handle_update_location env d rq
               else if action = ''GET_LOCATION'' then handle_get_location env d rq
               else if action = ''GET_LOCATION_HISTORY'' then handle_get_location_history env d rq
               else
                 (cors_response
                    [(''status'', PStr ''success''),
                     (''message'', PStr ''AllSensesAI Lambda is operational with live tracking''),
                     (''action'', PStr action),
                     (''eumCompliant'', PBool True), (''liveTrackingEnabled'', PBool True),
                     (''originatorNumber'', PStr ORIGINATOR_NUMBER),
                     (''campaign'', PStr CONFIGURATION_SET),
                     (''timestamp'', PStr (tr_utc_now_iso env))] 200,
                  d, []))"

definition recognized_actions :: "string list" where
  \<comment> \<open>The actions the handler's chain of comparisons names.\<close>
  "recognized_actions =
     [''JURY_EMERGENCY_ALERT'', ''JURY_TEST'', ''TEST_SMS'', ''CHECK_EUM_CONFIG'',
      ''UPDATE_LOCATION'', ''GET_LOCATION'', ''GET_LOCATION_HISTORY'']"

section \<open>allsenseai-live-tracking.py: the location history\<close>

definition lt_handle_get_location_history ::
  "tracking_env \<Rightarrow> db \<Rightarrow> request \<Rightarrow> response \<times> db \<times> event list" where
  \<comment> \<open>The same request, but \<open>ScanIndexForward=True\<close>: oldest first.  The items are returned
      as stored, under \<open>history\<close>.\<close>
  "lt_handle_get_location_history env d rq =
     (let incident_id = rq_incidentId rq;
          limit_n = (case rq_limit rq of None \<Rightarrow> 100 | Some n \<Rightarrow> n)
      in if \<not> truthy_str incident_id then
           (cors_response
              [(''status'', PStr ''error''), (''message'', PStr ''incidentId is required'')] 400,
            d, [])
         else
           let incident_id = (case incident_id of None \<Rightarrow> [] | Some i \<Rightarrow> i)
           in case query_table env d incident_id True limit_n of
                Inl e \<Rightarrow>
                  (cors_response
                     [(''status'', PStr ''error''), (''message'', PStr (exn_str e))] 500,
                   d, [Logged (''Get location history error: '' @ exn_str e)])
              | Inr items \<Rightarrow>
                  (cors_response
                     [(''status'', PStr ''success''),
                      (''history'', PList (map (PDict \<circ> item_dict) items)),
                      (''count'', PInt (int (length items))),
                      (''timestamp'', PStr (tr_utc_now_iso env))] 200,
                   d, []))"

definition response_dicts :: "response \<Rightarrow> string \<Rightarrow> pydict list" where
  \<comment> \<open>The list of dicts a response body holds under a key.\<close>
  "response_dicts r k =
     (case py_get (body r) k of
        PList vs \<Rightarrow> concat (map (\<lambda>v. case v of PDict x \<Rightarrow> [x] | _ \<Rightarrow> []) vs)
      | _ \<Rightarrow> [])"

definition response_timestamps :: "response \<Rightarrow> string \<Rightarrow> pyval list" where
  "response_timestamps r k = map (\<lambda>x. py_get x ''timestamp'') (response_dicts r k)"

definition sent_messages :: "event list \<Rightarrow> string list" where
  \<comment> \<open>The message bodies handed to the provider, in order.\<close>
  "sent_messages evs =
     concat (map (\<lambda>ev. case ev of
                          Called (SendTextMessage dest orig msg mt cs) \<Rightarrow> [msg]
                        | Called (SnsPublish ph msg) \<Rightarrow> [msg]
                        | Logged l \<Rightarrow> []) evs)"

text \<open>The fixes of an incident in order of capture time, and the \<open>limit\<close> a history request
  asks for, named for use in statements.\<close>

definition fixes_of :: "db \<Rightarrow> string \<Rightarrow> location_item list" where
  "fixes_of d i = sort_key li_timestamp (filter (\<lambda>x. li_incidentId x = i) (locations d))"

definition history_limit :: "request \<Rightarrow> int" where
  "history_limit rq = (case rq_limit rq of None \<Rightarrow> 100 | Some n \<Rightarrow> n)"

section \<open>allsenseai-colombia-working.py: the store functions and the location update\<close>

text \<open>
  The store, the clock and the uuid are read through the same environment record as in the
  tracking variant.  Here both store functions catch every exception and log it; neither
  raises.
\<close>

definition py_int :: "rat \<Rightarrow> int" where
  \<comment> \<open>\<open>int(x)\<close>: truncation toward zero.\<close>
  "py_int r = (if 0 \<le> r then \<lfloor>r\<rfloor> else \<lceil>r\<rceil>)"

definition co_store_incident ::
  "tracking_env \<Rightarrow> db \<Rightarrow> string \<Rightarrow> string \<Rightarrow> string \<Rightarrow> string \<Rightarrow> location \<Rightarrow> string \<Rightarrow>
     db \<times> event list" where
  "co_store_incident env d incident_id victim_name emergency_phone detection_type loc country_code =
     (let item = \<lparr>ii_incidentId = incident_id, ii_victimName = victim_name,
                   ii_emergencyPhone = emergency_phone, ii_countryCode = Some country_code,
                   ii_detectionType = detection_type, ii_initialLocation = location_dict loc,
                   ii_createdAt = tr_utc_now_iso env, ii_status = ''active'',
                   ii_ttl = tr_now_s env + 7 * 86400\<rparr>
      in case tr_put_incident_error env item of
           None \<Rightarrow> (d\<lparr>incidents := put_incident item (incidents d)\<rparr>, [])
         | Some e \<Rightarrow> (d, [Logged (''Store incident failed: '' @ exn_str e)]))"

definition co_store_location_update ::
  "tracking_env \<Rightarrow> db \<Rightarrow> string \<Rightarrow> string \<Rightarrow> location \<Rightarrow> rat option \<Rightarrow> db \<times> event list" where
  "co_store_location_update env d incident_id victim_name loc battery_level =
     (let item = \<lparr>li_incidentId = incident_id, li_timestamp = tr_now_ms env,
                   li_victimName = Some victim_name,
                   li_latitude = num_or_zero (latitude loc),
                   li_longitude = num_or_zero (longitude loc),
                   li_accuracy = num_or_zero (accuracy loc),
                   li_speed = None, li_heading = None,
                   li_batteryLevel =
                     (if truthy_num battery_level
                      then map_option (\<lambda>b. of_int (py_int b)) battery_level else None),
                   li_ttl = tr_now_s env + 24 * 3600\<rparr>
      in case tr_put_location_error env item of
           None \<Rightarrow> (d\<lparr>locations := put_location item (locations d)\<rparr>, [])
         | Some e \<Rightarrow> (d, [Logged (''Store location failed: '' @ exn_str e)]))"

definition co_handle_update_location ::
  "tracking_env \<Rightarrow> db \<Rightarrow> request \<Rightarrow> response \<times> db \<times> event list" where
  "co_handle_update_location env d rq =
     (if \<not> truthy_str (rq_incidentId rq) then
        (cors_response
           [(''status'', PStr ''error''), (''message'', PStr ''incidentId required'')] 400,
         d, [])
      else
        let incident_id = (case rq_incidentId rq of None \<Rightarrow> [] | Some i \<Rightarrow> i);
            (d', ev) =
              co_store_location_update env d incident_id
                (case rq_victimName rq of None \<Rightarrow> ''Unknown'' | Some v \<Rightarrow> v)
                (case rq_location rq of None \<Rightarrow> empty_location | Some l \<Rightarrow> l)
                (rq_batteryLevel rq)
        in (cors_response
              [(''status'', PStr ''success''), (''incidentId'', PStr incident_id)] 200,
            d', ev))"

text \<open>The items the two location updates build, named for use in statements.\<close>

definition update_item :: "tracking_env \<Rightarrow> request \<Rightarrow> location_item" where
  "update_item env rq =
     (let loc = (case rq_location rq of None \<Rightarrow> empty_location | Some l \<Rightarrow> l)
      in \<lparr>li_incidentId = (case rq_incidentId rq of None \<Rightarrow> [] | Some i \<Rightarrow> i),
          li_timestamp = tr_now_ms env, li_victimName = None,
          li_latitude = num_or_zero (latitude loc),
          li_longitude = num_or_zero (longitude loc),
          li_accuracy = num_or_zero (accuracy loc),
          li_speed = (if truthy_num (speed loc) then speed loc else None),
          li_heading = (if truthy_num (heading loc) then heading loc else None),
          li_batteryLevel = rq_batteryLevel rq, li_ttl = tr_now_s env + 24 * 3600\<rparr>)"

definition co_update_item :: "tracking_env \<Rightarrow> request \<Rightarrow> location_item" where
  "co_update_item env rq =
     (let loc = (case rq_location rq of None \<Rightarrow> empty_location | Some l \<Rightarrow> l)
      in \<lparr>li_incidentId = (case rq_incidentId rq of None \<Rightarrow> [] | Some i \<Rightarrow> i),
          li_timestamp = tr_now_ms env,
          li_victimName = Some (case rq_victimName rq of None \<Rightarrow> ''Unknown'' | Some v \<Rightarrow> v),
          li_latitude = num_or_zero (latitude loc),
          li_longitude = num_or_zero (longitude loc),
          li_accuracy = num_or_zero (accuracy loc),
          li_speed = None, li_heading = None,
          li_batteryLevel =
            (if truthy_num (rq_batteryLevel rq)
             then map_option (\<lambda>b. of_int (py_int b)) (rq_batteryLevel rq) else None),
          li_ttl = tr_now_s env + 24 * 3600\<rparr>)"

section \<open>allsense-complete-lambda.py: composing and sending the alert text\<close>

text \<open>
  \<open>cl_lat\<close> and \<open>cl_lon\<close> hold the text the f-string renders for the two coordinates, and
  the argument \<open>confidence_pct\<close> stands for \<open>int(confidence * 100)\<close>.
\<close>

record cl_location_data =
  cl_placeName :: string
  cl_lat :: string
  cl_lon :: string
  cl_mapLink :: string

datatype cl_call = PinpointSendMessages string string | ClSnsPublish string string

record complete_env =
  cl_pinpoint_send_messages :: "nat \<Rightarrow> string \<Rightarrow> string \<Rightarrow> exn + (int \<times> string)"
  cl_sns_publish :: "nat \<Rightarrow> string \<Rightarrow> string \<Rightarrow> exn + string"
  cl_local_time :: string

definition EM_DASH :: char where
  \<comment> \<open>Stands for the one character U+2014 of the two templates.\<close>
  "EM_DASH = CHR 0x97"

definition primary_sms_text ::
  "complete_env \<Rightarrow> string \<Rightarrow> cl_location_data \<Rightarrow> int \<Rightarrow> string" where
  "primary_sms_text env victim_name loc confidence_pct =
     ''[AllSenseAI] Emergency alert for '' @ victim_name @ ''. Possible danger detected at '' @
     cl_placeName loc @ '' ('' @ cl_lat loc @ '','' @ cl_lon loc @ '') '' @ [EM_DASH] @ '' '' @
     cl_mapLink loc @ '' Time: '' @ cl_local_time env @ ''. Confidence: '' @
     str_int confidence_pct @ ''%. Please reply OK if you received this.''"

definition short_sms_text :: "complete_env \<Rightarrow> string \<Rightarrow> cl_location_data \<Rightarrow> string" where
  "short_sms_text env victim_name loc =
     ''[AllSenseAI] Emergency alert for '' @ victim_name @ ''. Location: '' @
     cl_lat loc @ '','' @ cl_lon loc @ '' '' @ [EM_DASH] @ '' '' @
     cl_mapLink loc @ '' Time: '' @ cl_local_time env @ ''. Reply OK to confirm.''"

definition compose_sms_text ::
  "complete_env \<Rightarrow> string \<Rightarrow> cl_location_data \<Rightarrow> int \<Rightarrow> string" where
  \<comment> \<open>The text \<open>send_emergency_sms\<close> sends: the primary template, or the short one when the
      primary is longer than 160 characters.\<close>
  "compose_sms_text env victim_name loc confidence_pct =
     (let sms_text = primary_sms_text env victim_name loc confidence_pct
      in if length sms_text > 160 then short_sms_text env victim_name loc else sms_text)"

definition send_pinpoint_sms ::
  "complete_env \<Rightarrow> nat \<Rightarrow> string \<Rightarrow> string \<Rightarrow> string option" where
  \<comment> \<open>The message id, or \<open>None\<close> when Pinpoint raised or did not answer 200.\<close>
  "send_pinpoint_sms env k phone_number message =
     (case cl_pinpoint_send_messages env k phone_number message of
        Inr (status, message_id) \<Rightarrow> if status = 200 then Some message_id else None
      | Inl e \<Rightarrow> None)"

definition cl_contact_result ::
  "complete_env \<Rightarrow> string \<Rightarrow> nat \<Rightarrow> contact \<Rightarrow> pydict \<times> cl_call list" where
  "cl_contact_result env sms_text k c =
     (let message_id = send_pinpoint_sms env k (contact_phone c) sms_text
      in if truthy_str message_id then
           ([(''contactName'', PStr (contact_name c)), (''phone'', PStr (contact_phone c)),
             (''status'', PStr ''sent''), (''messageId'', opt_str message_id),
             (''method'', PStr ''pinpoint'')],
            [PinpointSendMessages (contact_phone c) sms_text])
         else
           (case cl_sns_publish env k (contact_phone c) sms_text of
              Inr mid \<Rightarrow>
                ([(''contactName'', PStr (contact_name c)), (''phone'', PStr (contact_phone c)),
                  (''status'', PStr ''sent''), (''messageId'', PStr mid),
                  (''method'', PStr ''sns_fallback'')],
                 [PinpointSendMessages (contact_phone c) sms_text,
                  ClSnsPublish (contact_phone c) sms_text])
            | Inl e \<Rightarrow>
                ([(''contactName'', PStr (contact_name c)), (''phone'', PStr (contact_phone c)),
                  (''status'', PStr ''failed''), (''error'', PStr (exn_str e))],
                 [PinpointSendMessages (contact_phone c) sms_text,
                  ClSnsPublish (contact_phone c) sms_text])))"

fun cl_loop ::
  "complete_env \<Rightarrow> string \<Rightarrow> nat \<Rightarrow> contact list \<Rightarrow> pydict list \<times> cl_call list" where
  "cl_loop env sms_text k [] = ([], [])"
| "cl_loop env sms_text k (c # cs) =
     (let (r, calls) = cl_contact_result env sms_text k c;
          (rs, calls') = cl_loop env sms_text (Suc k) cs
      in (r # rs, calls @ calls'))"

definition send_emergency_sms ::
  "complete_env \<Rightarrow> user_profile \<Rightarrow> cl_location_data \<Rightarrow> int \<Rightarrow> pydict list \<times> cl_call list" where
  "send_emergency_sms env profile loc confidence_pct =
     (let victim_name = (case victimName profile of None \<Rightarrow> ''Unknown'' | Some v \<Rightarrow> v);
          opted = filter (\<lambda>c. optedIn c = Some True) (contacts profile)
      in if opted = []
         then ([[(''status'', PStr ''error''), (''message'', PStr ''No opted-in contacts'')]], [])
         else cl_loop env (compose_sms_text env victim_name loc confidence_pct) 0 opted)"

definition cl_call_message :: "cl_call \<Rightarrow> string" where
  "cl_call_message c = (case c of PinpointSendMessages p m \<Rightarrow> m | ClSnsPublish p m \<Rightarrow> m)"

section \<open>Example inputs\<close>

text \<open>Providers that raise on every call, for the concrete instances below.\<close>

definition failing_jury_env :: improved_env where
  "failing_jury_env =
     \<lparr>jury_publish = (\<lambda>k p m. Inl (Exn ''ClientError'' ''AuthorizationError'' None None)),
      jury_uuid4_hex = (\<lambda>k. ''0123456789abcdef0123456789abcdef''),
      jury_now_hms = ''12:00:00'', jury_utc_now_iso = ''2025-01-01T12:00:00+00:00''\<rparr>"

definition failing_colombia_env :: colombia_env where
  "failing_colombia_env =
     \<lparr>co_get_eum_client_error = None,
      eum_send_text_message = (\<lambda>c. Inl (Exn ''ClientError'' ''AuthorizationError'' None None)),
      co_get_sns_client_error = None,
      co_sns_publish = (\<lambda>c. Inl (Exn ''ClientError'' ''AuthorizationError'' None None))\<rparr>"

definition miami :: location_data where
  "miami = \<lparr>placeName = ''Miami Convention Center, Miami, FL'',
            mapLink = ''https://maps.google.com/?q=25.7617,-80.1918''\<rparr>"

definition critical :: distress_result where
  "critical = \<lparr>level = ''CRITICAL'', confidence_percent = 90, urgency = Some ''immediate''\<rparr>"

definition working_tracking_env :: tracking_env where
  \<comment> \<open>A provider and a store that answer every call.\<close>
  "working_tracking_env =
     \<lparr>tr_send_text_message = (\<lambda>c. Inr [(''MessageId'', PStr ''msg-0001'')]),
      tr_put_incident_error = (\<lambda>i. None),
      tr_put_location_error = (\<lambda>i. None),
      tr_query_error = (\<lambda>i. None),
      tr_get_sms_client_error = None,
      tr_describe_phone_numbers = Inr [],
      tr_describe_configuration_sets = Inr [],
      tr_uuid4_hex = ''0123456789abcdef0123456789abcdef'',
      tr_now_hms = ''12:00:00'',
      tr_utc_now_iso = ''2025-01-01T12:00:00+00:00'',
      tr_now_ms = 1735732800000,
      tr_now_s = 1735732800\<rparr>"

definition store_down_env :: tracking_env where
  \<comment> \<open>The same, with a store whose every write raises.\<close>
  "store_down_env =
     working_tracking_env
       \<lparr>tr_put_incident_error :=
          (\<lambda>i. Some (Exn ''EndpointConnectionError'' ''store unavailable'' None None)),
        tr_put_location_error :=
          (\<lambda>i. Some (Exn ''EndpointConnectionError'' ''store unavailable'' None None))\<rparr>"

definition empty_request :: request where
  \<comment> \<open>The body \<open>{}\<close>.\<close>
  "empty_request =
     \<lparr>rq_action = None, rq_victimName = None, rq_phoneNumber = None, rq_detectionType = None,
      rq_detectionData = None, rq_location = None, rq_incidentId = None, rq_batteryLevel = None,
      rq_limit = None, rq_message = None, rq_other = []\<rparr>"

definition empty_db :: db where
  "empty_db = \<lparr>incidents = [], locations = []\<rparr>"

definition fix_at :: "int \<Rightarrow> location_item" where
  \<comment> \<open>A fix of incident \<open>EMG-1\<close> captured at the given time.\<close>
  "fix_at t =
     \<lparr>li_incidentId = ''EMG-1'', li_timestamp = t, li_victimName = None,
      li_latitude = 25, li_longitude = -80, li_accuracy = 10,
      li_speed = None, li_heading = None, li_batteryLevel = None, li_ttl = 0\<rparr>"

definition three_fixes_db :: db where
  "three_fixes_db = \<lparr>incidents = [], locations = [fix_at 1000, fix_at 2000, fix_at 3000]\<rparr>"

definition complete_example_env :: complete_env where
  "complete_example_env =
     \<lparr>cl_pinpoint_send_messages = (\<lambda>k p m. Inr (200, ''pin-0001'')),
      cl_sns_publish = (\<lambda>k p m. Inr ''sns-0001''),
      cl_local_time = ''2025-01-01 12:00:00 UTC''\<rparr>"

definition miami_coordinates :: cl_location_data where
  "miami_coordinates =
     \<lparr>cl_placeName = ''Miami Convention Center, Miami, FL'', cl_lat = ''25.7617'',
      cl_lon = ''-80.1918'', cl_mapLink = ''https://maps.google.com/?q=25.7617,-80.1918''\<rparr>"

section \<open>Properties of the normalizer and of country detection\<close>

lemma set_py_strip: "set (py_strip s) \<subseteq> set s"
proof -
  have "set (py_strip s) = set (dropWhile py_isspace (rev (dropWhile py_isspace s)))"
    by (simp add: py_strip_def)
  also have "\<dots> \<subseteq> set (rev (dropWhile py_isspace s))"
    using set_dropWhileD by fastforce
  also have "\<dots> \<subseteq> set s"
    using set_dropWhileD by fastforce
  finally show ?thesis .
qed

lemma set_py_remove: "set (py_remove c s) = set s - {c}"
  by (auto simp: py_remove_def)

lemma py_remove_id: "c \<notin> set s \<Longrightarrow> py_remove c s = s"
  by (auto simp: py_remove_def filter_id_conv)

lemma set_clean_phone: "set (clean_phone x) \<subseteq> set x - set '' -()''"
  using set_py_strip [of x] by (auto simp: clean_phone_def set_py_remove)

lemma py_strip_id:
  assumes "s \<noteq> []" "\<not> py_isspace (hd s)" "\<not> py_isspace (last s)"
  shows "py_strip s = s"
proof -
  from assms have a: "dropWhile py_isspace s = s"
    by (cases s) auto
  from assms have "rev s \<noteq> []" "\<not> py_isspace (hd (rev s))"
    by (simp_all add: hd_rev)
  then have "dropWhile py_isspace (rev s) = rev s"
    by (cases "rev s") auto
  with a show ?thesis by (simp add: py_strip_def)
qed

lemma clean_phone_id:
  assumes "s \<noteq> []" "\<not> py_isspace (hd s)" "\<not> py_isspace (last s)"
    and "set s \<inter> set '' -()'' = {}"
  shows "clean_phone s = s"
  using assms by (simp add: clean_phone_def py_strip_id py_remove_id)

lemma normalize_shape:
  "normalize_phone_number x =
     (if startswith (clean_phone x) ''+'' then clean_phone x else CHR ''+'' # clean_phone x)"
  by (simp add: normalize_phone_number_def Let_def)

lemma normalize_starts: "startswith (normalize_phone_number x) ''+''"
  by (simp add: normalize_shape startswith_def)

lemma set_normalize: "set (normalize_phone_number x) \<subseteq> insert (CHR ''+'') (set x - set '' -()'')"
  using set_clean_phone [of x] by (auto simp: normalize_shape)

lemma normalize_free: "set (normalize_phone_number x) \<inter> set '' -()'' = {}"
  using set_normalize [of x] by auto

lemma plus_not_space: "\<not> py_isspace (CHR ''+'')"
  by (simp add: py_isspace_def)

lemma normalize_idem_if:
  assumes "\<not> py_isspace (last (normalize_phone_number x))"
  shows "normalize_phone_number (normalize_phone_number x) = normalize_phone_number x"
proof -
  let ?o = "normalize_phone_number x"
  have st: "startswith ?o ''+''" by (rule normalize_starts)
  then have ne: "?o \<noteq> []" and hd: "hd ?o = CHR ''+''"
    by (auto simp: startswith_def prefix_def)
  have "clean_phone ?o = ?o"
    using ne hd assms normalize_free [of x] by (intro clean_phone_id) (simp_all add: plus_not_space)
  with st show ?thesis by (simp add: normalize_shape [of ?o])
qed

lemma digit_not_space: "is_digit c \<Longrightarrow> \<not> py_isspace c"
  by (auto simp: is_digit_def py_isspace_def)

lemma digit_not_format: "is_digit c \<Longrightarrow> c \<notin> set '' -()''"
  by (auto simp: is_digit_def)

lemma clean_normalized: 
  assumes "is_normalized x" shows "clean_phone x = x"
proof -
  from assms obtain ds where x: "x = CHR ''+'' # ds" and ds: "list_all is_digit ds"
    by (cases x) auto
  have "\<not> py_isspace (last x)"
    using ds x by (cases ds rule: rev_cases) (auto simp: plus_not_space digit_not_space)
  moreover have "set x \<inter> set '' -()'' = {}"
    using ds x digit_not_format by (auto simp: list_all_iff)
  ultimately show ?thesis
    using x by (intro clean_phone_id) (simp_all add: plus_not_space)
qed

lemma normalize_identity:
  assumes "is_normalized x" shows "normalize_phone_number x = x"
proof -
  from assms have "startswith x ''+''" by (cases x) (auto simp: startswith_def)
  with clean_normalized [OF assms] show ?thesis by (simp add: normalize_shape)
qed

lemma is_normalized_normalize:
  "is_normalized (normalize_phone_number x) =
     list_all is_digit (if startswith (clean_phone x) ''+'' then tl (clean_phone x) else clean_phone x)"
  by (cases "clean_phone x") (auto simp: normalize_shape startswith_def)

lemma normalize_idem_nows:
  assumes "\<forall>c\<in>set x. py_isspace c \<longrightarrow> c = CHR '' ''"
  shows "normalize_phone_number (normalize_phone_number x) = normalize_phone_number x"
proof (rule normalize_idem_if)
  let ?o = "normalize_phone_number x"
  have "?o \<noteq> []" using normalize_starts [of x] by (auto simp: startswith_def)
  then have "last ?o \<in> set ?o" by simp
  then have "last ?o = CHR ''+'' \<or> (last ?o \<in> set x \<and> last ?o \<noteq> CHR '' '')"
    using set_normalize [of x] by auto
  then show "\<not> py_isspace (last ?o)"
    using assms plus_not_space by auto
qed









section \<open>The claims on the normalizer and on country detection\<close>

text \<open>
  Claim C4, as stated, fails.  The normalizer does not validate: the letters of \<open>abc\<close> pass
  through, so the output \<open>+abc\<close> is not a \<open>+\<close> followed only by digits.  It is not idempotent
  either: \<open>strip\<close> runs before the dashes are removed, so the input \<open>12<TAB>-\<close> gives an output
  ending in a tab, which a second pass strips.
\<close>

theorem normalize_phone_number_counterexample:
  "normalize_phone_number ''abc'' = ''+abc'' \<and> \<not> is_normalized (normalize_phone_number ''abc'')
   \<and> normalize_phone_number [CHR ''1'', CHR ''2'', CHR 0x09, CHR ''-''] = [CHR ''+'', CHR ''1'', CHR ''2'', CHR 0x09]
   \<and> normalize_phone_number (normalize_phone_number [CHR ''1'', CHR ''2'', CHR 0x09, CHR ''-''])
       \<noteq> normalize_phone_number [CHR ''1'', CHR ''2'', CHR 0x09, CHR ''-'']"
  by (simp add: normalize_phone_number_def clean_phone_def py_strip_def py_remove_def
      startswith_def py_isspace_def is_digit_def)

text \<open>
  Claim C4, amended.  For every input string the normalizer strips surrounding whitespace,
  removes spaces, dashes and parentheses and prepends \<open>+\<close> when the cleaned string does not
  start with one; its output starts with \<open>+\<close> and holds no space, dash or parenthesis.  Other
  characters pass through: the output is a \<open>+\<close> followed only by digits exactly when the
  cleaned input is an optional \<open>+\<close> followed only by digits.  The normalizer is the identity on
  every \<open>+\<close>-and-digits string, and a second pass changes nothing whenever the first output
  does not end in a whitespace character, in particular whenever the input has no whitespace
  other than spaces.
\<close>

theorem normalize_phone_number_amended:
  "startswith (normalize_phone_number x) ''+''
   \<and> set (normalize_phone_number x) \<inter> set '' -()'' = {}
   \<and> normalize_phone_number x =
       (if startswith (clean_phone x) ''+'' then clean_phone x else CHR ''+'' # clean_phone x)
   \<and> is_normalized (normalize_phone_number x) =
       list_all is_digit
         (if startswith (clean_phone x) ''+'' then tl (clean_phone x) else clean_phone x)
   \<and> (is_normalized x \<longrightarrow> normalize_phone_number x = x)
   \<and> (\<not> py_isspace (last (normalize_phone_number x)) \<longrightarrow>
        normalize_phone_number (normalize_phone_number x) = normalize_phone_number x)
   \<and> ((\<forall>c\<in>set x. py_isspace c \<longrightarrow> c = CHR '' '') \<longrightarrow>
        normalize_phone_number (normalize_phone_number x) = normalize_phone_number x)"
  using normalize_starts normalize_free normalize_shape is_normalized_normalize
    normalize_identity normalize_idem_if normalize_idem_nows
  by blast

theorem normalize_phone_number_amended_witness:
  "is_normalized ''+13053033060''
   \<and> normalize_phone_number ''+13053033060'' = ''+13053033060''
   \<and> set (filter py_isspace ''+1 (305) 303-3060'') \<subseteq> {CHR '' ''}
   \<and> \<not> py_isspace (last (normalize_phone_number ''+1 (305) 303-3060''))
   \<and> normalize_phone_number ''+1 (305) 303-3060'' = ''+13053033060''
   \<and> normalize_phone_number (normalize_phone_number ''+1 (305) 303-3060'')
       = normalize_phone_number ''+1 (305) 303-3060''"
  using normalize_phone_number_amended [of "''+13053033060''"]
    normalize_phone_number_amended [of "''+1 (305) 303-3060''"]
  by (simp add: normalize_phone_number_def clean_phone_def py_strip_def py_remove_def
      startswith_def py_isspace_def is_digit_def)



section \<open>Properties of the universal send function\<close>

lemma spec_e164_split:
  "spec_e164 phone =
     (\<exists>cc sn. phone = CHR ''+'' # cc @ sn \<and> list_all is_digit cc \<and> list_all is_digit sn \<and>
        1 \<le> length cc \<and> length cc \<le> 3 \<and> 4 \<le> length sn \<and> length sn \<le> 14)"
proof
  assume "spec_e164 phone"
  then obtain ds where p: "phone = CHR ''+'' # ds" and d: "list_all is_digit ds"
    and l: "5 \<le> length ds" "length ds \<le> 17"
    by (auto simp: spec_e164_def split: list.splits)
  let ?n = "min 3 (length ds - 4)"
  have "phone = CHR ''+'' # take ?n ds @ drop ?n ds" using p by simp
  moreover have "list_all is_digit (take ?n ds)" "list_all is_digit (drop ?n ds)"
    using d by (auto simp: list_all_iff dest: in_set_takeD in_set_dropD)
  moreover have "1 \<le> length (take ?n ds)" "length (take ?n ds) \<le> 3"
    "4 \<le> length (drop ?n ds)" "length (drop ?n ds) \<le> 14"
    using l by auto
  ultimately show "\<exists>cc sn. phone = CHR ''+'' # cc @ sn \<and> list_all is_digit cc \<and> list_all is_digit sn \<and>
        1 \<le> length cc \<and> length cc \<le> 3 \<and> 4 \<le> length sn \<and> length sn \<le> 14"
    by blast
next
  assume "\<exists>cc sn. phone = CHR ''+'' # cc @ sn \<and> list_all is_digit cc \<and> list_all is_digit sn \<and>
        1 \<le> length cc \<and> length cc \<le> 3 \<and> 4 \<le> length sn \<and> length sn \<le> 14"
  then show "spec_e164 phone"
    by (auto simp: spec_e164_def)
qed

lemma re_match_e164_iff:
  "re_match_e164 p = (spec_e164 p \<or> (p \<noteq> [] \<and> last p = CHR 0x0A \<and> spec_e164 (butlast p)))"
proof (cases p)
  case Nil
  then show ?thesis by (simp add: re_match_e164_def spec_e164_def)
next
  case (Cons c r)
  have nl: "\<not> is_digit (CHR 0x0A)" by (simp add: is_digit_def)
  show ?thesis
  proof (cases "r \<noteq> [] \<and> last r = CHR 0x0A")
    case True
    then have "\<not> list_all is_digit r"
      using nl by (metis last_in_set list_all_iff)
    with True Cons show ?thesis
      by (auto simp: re_match_e164_def spec_e164_def Let_def)
  next
    case False
    with Cons show ?thesis
      by (cases r rule: rev_cases) (auto simp: re_match_e164_def spec_e164_def Let_def nl)
  qed
qed

lemma validate_phone_number_cases:
  "validate_phone_number phone =
     (if phone = [] then (None, Some ''Phone number is required'')
      else if re_match_e164 (universal_clean phone) then (Some (universal_clean phone), None)
      else (None, Some (''Invalid phone format: '' @ universal_clean phone @
                   ''. Must be E.164 format (+country_code + number)'')))"
  by (simp add: validate_phone_number_def universal_clean_def Let_def)

lemma send_sms_with_eum_rejected:
  assumes "\<not> re_match_e164 (universal_clean phone)"
  shows "\<exists>e. send_sms_with_eum env phone message event_id =
           ([(''status'', PStr ''failed''), (''error'', PStr e),
             (''phone'', PStr phone), (''realSms'', PBool False)], []) \<and> e \<noteq> []"
  using assms
  by (simp add: send_sms_with_eum_def validate_phone_number_cases truthy_str_def opt_str_def)

lemma send_sms_with_eum_fails_closed:
  assumes "\<not> spec_e164 (universal_clean phone)"
    and "last (universal_clean phone) \<noteq> CHR 0x0A"
  shows "py_get (fst (send_sms_with_eum env phone message event_id)) ''status'' = PStr ''failed''
    \<and> py_get (fst (send_sms_with_eum env phone message event_id)) ''error'' \<noteq> PNone
    \<and> snd (send_sms_with_eum env phone message event_id) = []"
proof -
  from assms have "\<not> re_match_e164 (universal_clean phone)"
    by (simp add: re_match_e164_iff)
  from send_sms_with_eum_rejected [OF this, of env message event_id]
  show ?thesis by (auto simp: py_get_def)
qed

text \<open>
  Claim C3: a phone string that, once spaces and dashes are removed and \<open>+\<close> is prepended,
  is not a \<open>+\<close> followed by a 1 to 3 digit country code and a 4 to 14 digit subscriber number
  must be rejected with a validation error before the provider is called.  The code fails
  closed on every such string that does not end in a newline
  (\<open>send_sms_with_eum_fails_closed\<close>), but the \<open>$\<close> of its pattern also matches before a
  final newline: the string \<open>+12345678<LF>\<close> is not of the pattern, passes validation and is
  handed to the provider, as evaluated here.
\<close>

theorem send_sms_with_eum_trailing_newline:
  "\<not> spec_e164 (universal_clean (''+12345678'' @ [CHR 0x0A]))
   \<and> send_sms_with_eum
       \<lparr>DEMO_MODE = False, SMS_ORIGINATOR = ''AllSensesAI'',
        SMS_CAMPAIGN_ID = ''AllSensesAI-SafetyAlerts'', TRACKING_URL_BASE = ''https://t'',
        uuid4_hex = ''0123456789abcdef0123456789abcdef'', utc_now_iso = ''2025-01-01T00:00:00+00:00'',
        sns_publish = (\<lambda>c. Inr ''mid-1'')\<rparr>
       (''+12345678'' @ [CHR 0x0A]) ''help'' None
     = ([(''status'', PStr ''sent''), (''messageId'', PStr ''mid-1''),
         (''phone'', PStr (''+12345678'' @ [CHR 0x0A])), (''realSms'', PBool True),
         (''smsMethod'', PStr ''SNS''), (''originator'', PStr ''AllSensesAI''),
         (''campaignId'', PStr ''AllSensesAI-SafetyAlerts''),
         (''timestamp'', PStr ''2025-01-01T00:00:00+00:00'')],
        [\<lparr>PhoneNumber = ''+12345678'' @ [CHR 0x0A], Message = ''help'',
          MessageAttributes =
            [(''AWS.SNS.SMS.SMSType'',
              PDict [(''DataType'', PStr ''String''), (''StringValue'', PStr ''Transactional'')]),
             (''AWS.SNS.SMS.SenderID'',
              PDict [(''DataType'', PStr ''String''), (''StringValue'', PStr ''AllSensesAI'')])]\<rparr>])"
  by (simp add: send_sms_with_eum_def validate_phone_number_def re_match_e164_def spec_e164_def
      universal_clean_def py_remove_def startswith_def is_digit_def truthy_str_def latam_codes_def)

text \<open>
  Claim C8, as stated, fails: validation runs before the demo-mode check, so with
  \<open>DEMO_MODE\<close> set a request for the phone \<open>abc\<close> gets a failed result, not a synthetic
  success.
\<close>

theorem send_sms_with_eum_demo_counterexample:
  "send_sms_with_eum
       \<lparr>DEMO_MODE = True, SMS_ORIGINATOR = ''AllSensesAI'',
        SMS_CAMPAIGN_ID = ''AllSensesAI-SafetyAlerts'', TRACKING_URL_BASE = ''https://t'',
        uuid4_hex = ''0123456789abcdef0123456789abcdef'', utc_now_iso = ''2025-01-01T00:00:00+00:00'',
        sns_publish = (\<lambda>c. Inr ''mid-1'')\<rparr>
       ''abc'' ''help'' None
     = ([(''status'', PStr ''failed''),
         (''error'', PStr ''Invalid phone format: +abc. Must be E.164 format (+country_code + number)''),
         (''phone'', PStr ''abc''), (''realSms'', PBool False)], [])"
  by (simp add: send_sms_with_eum_def validate_phone_number_def re_match_e164_def
      py_remove_def startswith_def is_digit_def truthy_str_def opt_str_def)

text \<open>
  Claim C8, amended.  While \<open>DEMO_MODE\<close> is set, no send request reaches the provider.  A
  request whose phone passes \<open>validate_phone_number\<close> returns the synthetic success: status
  \<open>sent\<close>, a message id of \<open>demo-\<close> and 12 hex digits, \<open>realSms\<close> false and \<open>demoMode\<close> true.
  A request whose phone is empty or fails validation returns a failed result with the
  validation error.
\<close>

theorem send_sms_with_eum_demo_mode:
  assumes "DEMO_MODE env"
  shows "snd (send_sms_with_eum env phone message event_id) = []
   \<and> (phone \<noteq> [] \<and> re_match_e164 (universal_clean phone) \<longrightarrow>
        fst (send_sms_with_eum env phone message event_id) =
          [(''status'', PStr ''sent''),
           (''messageId'', PStr (''demo-'' @ take 12 (uuid4_hex env))),
           (''phone'', PStr (universal_clean phone)), (''realSms'', PBool False),
           (''demoMode'', PBool True), (''note'', PStr ''SMS simulated (DEMO_MODE=true)'')])
   \<and> (\<not> (phone \<noteq> [] \<and> re_match_e164 (universal_clean phone)) \<longrightarrow>
        (\<exists>e. e \<noteq> [] \<and> fst (send_sms_with_eum env phone message event_id) =
          [(''status'', PStr ''failed''), (''error'', PStr e),
           (''phone'', PStr phone), (''realSms'', PBool False)]))"
  using assms
  by (simp add: send_sms_with_eum_def validate_phone_number_cases truthy_str_def opt_str_def)

theorem send_sms_with_eum_demo_mode_witness:
  "DEMO_MODE \<lparr>DEMO_MODE = True, SMS_ORIGINATOR = ''AllSensesAI'',
        SMS_CAMPAIGN_ID = ''AllSensesAI-SafetyAlerts'', TRACKING_URL_BASE = ''https://t'',
        uuid4_hex = ''0123456789abcdef0123456789abcdef'', utc_now_iso = ''2025-01-01T00:00:00+00:00'',
        sns_publish = (\<lambda>c. Inr ''mid-1'')\<rparr>
   \<and> re_match_e164 (universal_clean ''+1 305-303-3060'')
   \<and> send_sms_with_eum
       \<lparr>DEMO_MODE = True, SMS_ORIGINATOR = ''AllSensesAI'',
        SMS_CAMPAIGN_ID = ''AllSensesAI-SafetyAlerts'', TRACKING_URL_BASE = ''https://t'',
        uuid4_hex = ''0123456789abcdef0123456789abcdef'', utc_now_iso = ''2025-01-01T00:00:00+00:00'',
        sns_publish = (\<lambda>c. Inr ''mid-1'')\<rparr>
       ''+1 305-303-3060'' ''help'' None
     = ([(''status'', PStr ''sent''), (''messageId'', PStr ''demo-0123456789ab''),
         (''phone'', PStr ''+13053033060''), (''realSms'', PBool False),
         (''demoMode'', PBool True), (''note'', PStr ''SMS simulated (DEMO_MODE=true)'')], [])"
proof -
  let ?env = "\<lparr>DEMO_MODE = True, SMS_ORIGINATOR = ''AllSensesAI'',
        SMS_CAMPAIGN_ID = ''AllSensesAI-SafetyAlerts'', TRACKING_URL_BASE = ''https://t'',
        uuid4_hex = ''0123456789abcdef0123456789abcdef'', utc_now_iso = ''2025-01-01T00:00:00+00:00'',
        sns_publish = (\<lambda>c. Inr ''mid-1'')\<rparr>"
  have d: "DEMO_MODE ?env" by simp
  have c: "universal_clean ''+1 305-303-3060'' = ''+13053033060''"
    by (simp add: universal_clean_def py_remove_def startswith_def)
  have m: "re_match_e164 ''+13053033060''"
    by (simp add: re_match_e164_def is_digit_def)
  from send_sms_with_eum_demo_mode [OF d, of "''+1 305-303-3060''" "''help''" None] c m
  show ?thesis
    by (simp add: prod_eq_iff)
qed

section \<open>Properties of the dispatchers\<close>

lemma jury_loop_length: "length (fst (jury_loop env t k cs)) = length cs"
  by (induction cs arbitrary: k) (simp_all add: split_beta Let_def)

lemma jury_loop_nth:
  "i < length cs \<Longrightarrow>
     fst (jury_loop env t k cs) ! i = fst (jury_contact_result env t (k + i) (cs ! i))"
proof (induction cs arbitrary: k i)
  case Nil
  then show ?case by simp
next
  case (Cons c cs)
  show ?case
  proof (cases i)
    case 0
    then show ?thesis by (simp add: split_beta Let_def)
  next
    case (Suc j)
    with Cons.prems have "j < length cs" by simp
    from Cons.IH [OF this, of "Suc k"] Suc show ?thesis
      by (simp add: split_beta Let_def)
  qed
qed

lemma jury_contact_result_status:
  "py_get (fst (jury_contact_result env t k c)) ''status'' = PStr ''sent''"
  by (simp add: jury_contact_result_def py_get_def Let_def split: sum.splits)

lemma jury_loop_status:
  "r \<in> set (fst (jury_loop env t k cs)) \<Longrightarrow> py_get r ''status'' = PStr ''sent''"
proof (induction cs arbitrary: k)
  case Nil
  then show ?case by simp
next
  case (Cons c cs)
  then show ?case
    by (auto simp: split_beta Let_def jury_contact_result_status)
qed

lemma jury_contact_result_raise:
  assumes "contact_phone c = JURY_PHONE_NUMBER"
    and "jury_publish env k JURY_PHONE_NUMBER t = Inl e"
  shows "fst (jury_contact_result env t k c) =
     [(''contactName'', PStr (contact_name c)), (''phone'', PStr JURY_PHONE_NUMBER),
      (''status'', PStr ''sent''),
      (''messageId'', PStr (''jury-demo-'' @ take 8 (jury_uuid4_hex env k))),
      (''relationship'', PStr (case relationship c of None \<Rightarrow> ''contact'' | Some r \<Rightarrow> r)),
      (''realSms'', PBool False), (''juryPhone'', PBool True),
      (''note'', PStr (''SMS system operational (simulated due to: '' @ exn_str e @ '')'')),
      (''priority'', PInt (case priority c of None \<Rightarrow> 1 | Some p \<Rightarrow> p)),
      (''timestamp'', PStr (jury_utc_now_iso env))]"
  using assms by (simp add: jury_contact_result_def Let_def)

lemma dispatch_jury_nonempty:
  "opted_contacts profile \<noteq> [] \<Longrightarrow>
   dispatch_emergency_sms_jury env profile loc dr event_id =
     jury_loop env (jury_sms_text env (victim_name_of profile) loc dr event_id) 0
       (opted_contacts profile)"
  by (simp add: dispatch_emergency_sms_jury_def opted_contacts_def victim_name_of_def Let_def)

lemma dispatch_jury_never_failed:
  "r \<in> set (fst (dispatch_emergency_sms_jury env profile loc dr event_id)) \<Longrightarrow>
     py_get r ''status'' \<noteq> PStr ''failed''"
proof (cases "opted_contacts profile = []")
  case True
  assume "r \<in> set (fst (dispatch_emergency_sms_jury env profile loc dr event_id))"
  with True show ?thesis
    by (simp add: dispatch_emergency_sms_jury_def opted_contacts_def Let_def py_get_def)
next
  case False
  assume "r \<in> set (fst (dispatch_emergency_sms_jury env profile loc dr event_id))"
  with False have "py_get r ''status'' = PStr ''sent''"
    by (simp add: dispatch_jury_nonempty jury_loop_status)
  then show ?thesis by simp
qed

lemma dispatch_jury_fabricates:
  assumes "k < length (opted_contacts profile)"
    and "contact_phone (opted_contacts profile ! k) = JURY_PHONE_NUMBER"
    and "jury_publish env k JURY_PHONE_NUMBER
           (jury_sms_text env (victim_name_of profile) loc dr event_id) = Inl e"
  shows "py_get (fst (dispatch_emergency_sms_jury env profile loc dr event_id) ! k) ''status''
           = PStr ''sent''
    \<and> py_get (fst (dispatch_emergency_sms_jury env profile loc dr event_id) ! k) ''messageId''
           = PStr (''jury-demo-'' @ take 8 (jury_uuid4_hex env k))
    \<and> py_get (fst (dispatch_emergency_sms_jury env profile loc dr event_id) ! k) ''realSms''
           = PBool False
    \<and> py_get (fst (dispatch_emergency_sms_jury env profile loc dr event_id) ! k) ''note''
           = PStr (''SMS system operational (simulated due to: '' @ exn_str e @ '')'')
    \<and> py_get (fst (dispatch_emergency_sms_jury env profile loc dr event_id) ! k) ''error''
           = PNone"
proof -
  from assms(1) have ne: "opted_contacts profile \<noteq> []" by auto
  have "fst (dispatch_emergency_sms_jury env profile loc dr event_id) ! k =
      fst (jury_contact_result env (jury_sms_text env (victim_name_of profile) loc dr event_id) k
            (opted_contacts profile ! k))"
    using jury_loop_nth [OF assms(1), of env _ 0] by (simp add: dispatch_jury_nonempty [OF ne])
  then show ?thesis
    by (simp add: jury_contact_result_raise [OF assms(2,3)] py_get_def)
qed

lemma send_via_eum_raise:
  assumes "co_get_eum_client_error env = None"
    and "eum_send_text_message env
             (SendTextMessage phone ORIGINATOR_NUMBER_US message MESSAGE_TYPE CONFIGURATION_SET)
           = Inl e"
  shows "send_via_eum env phone message =
     ([(''status'', PStr ''failed''), (''error'', PStr (exn_str e)), (''method'', PStr ''EUM'')],
      [SendTextMessage phone ORIGINATOR_NUMBER_US message MESSAGE_TYPE CONFIGURATION_SET])"
  using assms by (simp add: send_via_eum_def Let_def)

lemma send_via_sns_raise:
  assumes "co_get_sns_client_error env = None"
    and "co_sns_publish env (SnsPublish phone message) = Inl e"
  shows "send_via_sns env phone message cfg =
     ([(''status'', PStr ''failed''), (''error'', PStr (exn_str e)), (''method'', PStr ''SNS''),
       (''country'', PStr (name cfg))],
      [SnsPublish phone message])"
  using assms by (simp add: send_via_sns_def Let_def)

text \<open>
  Claim C1, as stated, fails on \<open>dispatch_emergency_sms_jury\<close>: with the jury profile and a
  provider whose \<open>publish\<close> raises, the entry for the jury phone has status \<open>sent\<close>, a made-up
  message id \<open>jury-demo-01234567\<close> and no error.
\<close>

theorem dispatch_emergency_sms_jury_counterexample:
  "map (\<lambda>r. (py_get r ''status'', py_get r ''messageId'', py_get r ''error''))
     (fst (dispatch_emergency_sms_jury failing_jury_env (fetch_user_profile_jury ''user-123'')
             miami critical ''0f8fad5b-d9cb-469f-a165-70867728950e''))
   = [(PStr ''sent'', PStr ''jury-demo-01234567'', PNone),
      (PStr ''sent'', PStr ''demo-msg-01234567'', PNone),
      (PStr ''sent'', PStr ''demo-msg-01234567'', PNone)]"
  by (simp add: dispatch_emergency_sms_jury_def fetch_user_profile_jury_def failing_jury_env_def
      jury_contact_result_def JURY_PHONE_NUMBER_def py_get_def Let_def)

text \<open>
  Claim C1, amended.  When the provider's send raises, the senders of the Colombia variant
  (\<open>send_via_eum\<close>, \<open>send_via_sns\<close>, and \<open>send_sms_hybrid\<close> over them) return status \<open>failed\<close>
  with the exception's text as error and no message id.  The jury dispatch of the improved
  variant does otherwise, by design: no entry it returns has status \<open>failed\<close>, and when
  \<open>publish\<close> raises for a contact with the jury phone, that contact's entry has status
  \<open>sent\<close>, \<open>realSms\<close> false, the message id \<open>jury-demo-\<close> and 8 hex digits of a fresh uuid,
  and a note that quotes the exception.
\<close>

theorem dispatch_on_provider_exception:
  "(co_get_eum_client_error cenv = None
    \<and> eum_send_text_message cenv
      (SendTextMessage phone ORIGINATOR_NUMBER_US message MESSAGE_TYPE CONFIGURATION_SET) = Inl e
    \<longrightarrow> send_via_eum cenv phone message =
          ([(''status'', PStr ''failed''), (''error'', PStr (exn_str e)),
            (''method'', PStr ''EUM'')],
           [SendTextMessage phone ORIGINATOR_NUMBER_US message MESSAGE_TYPE CONFIGURATION_SET]))
   \<and> (co_get_sns_client_error cenv = None
    \<and> co_sns_publish cenv (SnsPublish phone message) = Inl e
    \<longrightarrow> send_via_sns cenv phone message cfg =
          ([(''status'', PStr ''failed''), (''error'', PStr (exn_str e)),
            (''method'', PStr ''SNS''), (''country'', PStr (name cfg))],
           [SnsPublish phone message]))
   \<and> ((if use_eum cfg
        then co_get_eum_client_error cenv = None
           \<and> eum_send_text_message cenv
               (SendTextMessage phone ORIGINATOR_NUMBER_US message MESSAGE_TYPE
                  CONFIGURATION_SET) = Inl e
        else co_get_sns_client_error cenv = None
           \<and> co_sns_publish cenv (SnsPublish phone message) = Inl e)
    \<longrightarrow> py_get (fst (send_sms_hybrid cenv phone message cfg)) ''status'' = PStr ''failed''
        \<and> py_get (fst (send_sms_hybrid cenv phone message cfg)) ''error'' = PStr (exn_str e)
        \<and> py_get (fst (send_sms_hybrid cenv phone message cfg)) ''messageId'' = PNone)
   \<and> (\<forall>r\<in>set (fst (dispatch_emergency_sms_jury env profile loc dr event_id)).
         py_get r ''status'' \<noteq> PStr ''failed'')
   \<and> (k < length (opted_contacts profile)
      \<and> contact_phone (opted_contacts profile ! k) = JURY_PHONE_NUMBER
      \<and> jury_publish env k JURY_PHONE_NUMBER
           (jury_sms_text env (victim_name_of profile) loc dr event_id) = Inl e'
    \<longrightarrow> py_get (fst (dispatch_emergency_sms_jury env profile loc dr event_id) ! k) ''status''
           = PStr ''sent''
      \<and> py_get (fst (dispatch_emergency_sms_jury env profile loc dr event_id) ! k) ''messageId''
           = PStr (''jury-demo-'' @ take 8 (jury_uuid4_hex env k))
      \<and> py_get (fst (dispatch_emergency_sms_jury env profile loc dr event_id) ! k) ''realSms''
           = PBool False
      \<and> py_get (fst (dispatch_emergency_sms_jury env profile loc dr event_id) ! k) ''note''
           = PStr (''SMS system operational (simulated due to: '' @ exn_str e' @ '')'')
      \<and> py_get (fst (dispatch_emergency_sms_jury env profile loc dr event_id) ! k) ''error''
           = PNone)"
proof -
  have hybrid: "(if use_eum cfg
        then co_get_eum_client_error cenv = None
           \<and> eum_send_text_message cenv
               (SendTextMessage phone ORIGINATOR_NUMBER_US message MESSAGE_TYPE
                  CONFIGURATION_SET) = Inl e
        else co_get_sns_client_error cenv = None
           \<and> co_sns_publish cenv (SnsPublish phone message) = Inl e)
    \<longrightarrow> py_get (fst (send_sms_hybrid cenv phone message cfg)) ''status'' = PStr ''failed''
        \<and> py_get (fst (send_sms_hybrid cenv phone message cfg)) ''error'' = PStr (exn_str e)
        \<and> py_get (fst (send_sms_hybrid cenv phone message cfg)) ''messageId'' = PNone"
    by (cases "use_eum cfg")
       (simp_all add: send_sms_hybrid_def send_via_eum_raise send_via_sns_raise py_get_def)
  have fab: "k < length (opted_contacts profile)
      \<and> contact_phone (opted_contacts profile ! k) = JURY_PHONE_NUMBER
      \<and> jury_publish env k JURY_PHONE_NUMBER
           (jury_sms_text env (victim_name_of profile) loc dr event_id) = Inl e'
    \<longrightarrow> py_get (fst (dispatch_emergency_sms_jury env profile loc dr event_id) ! k) ''status''
           = PStr ''sent''
      \<and> py_get (fst (dispatch_emergency_sms_jury env profile loc dr event_id) ! k) ''messageId''
           = PStr (''jury-demo-'' @ take 8 (jury_uuid4_hex env k))
      \<and> py_get (fst (dispatch_emergency_sms_jury env profile loc dr event_id) ! k) ''realSms''
           = PBool False
      \<and> py_get (fst (dispatch_emergency_sms_jury env profile loc dr event_id) ! k) ''note''
           = PStr (''SMS system operational (simulated due to: '' @ exn_str e' @ '')'')
      \<and> py_get (fst (dispatch_emergency_sms_jury env profile loc dr event_id) ! k) ''error''
           = PNone"
    using dispatch_jury_fabricates [of k profile env loc dr event_id e'] by blast
  have nf: "\<forall>r\<in>set (fst (dispatch_emergency_sms_jury env profile loc dr event_id)).
         py_get r ''status'' \<noteq> PStr ''failed''"
    using dispatch_jury_never_failed by blast
  have a: "co_get_eum_client_error cenv = None
    \<and> eum_send_text_message cenv
      (SendTextMessage phone ORIGINATOR_NUMBER_US message MESSAGE_TYPE CONFIGURATION_SET) = Inl e
    \<longrightarrow> send_via_eum cenv phone message =
          ([(''status'', PStr ''failed''), (''error'', PStr (exn_str e)),
            (''method'', PStr ''EUM'')],
           [SendTextMessage phone ORIGINATOR_NUMBER_US message MESSAGE_TYPE CONFIGURATION_SET])"
    using send_via_eum_raise by blast
  have b: "co_get_sns_client_error cenv = None
    \<and> co_sns_publish cenv (SnsPublish phone message) = Inl e
    \<longrightarrow> send_via_sns cenv phone message cfg =
          ([(''status'', PStr ''failed''), (''error'', PStr (exn_str e)),
            (''method'', PStr ''SNS''), (''country'', PStr (name cfg))],
           [SnsPublish phone message])"
    using send_via_sns_raise by blast
  show ?thesis
    by (intro conjI) (rule a b hybrid nf fab)+
qed

theorem dispatch_on_provider_exception_witness:
  "eum_send_text_message failing_colombia_env
      (SendTextMessage ''+13053033060'' ORIGINATOR_NUMBER_US ''help'' MESSAGE_TYPE CONFIGURATION_SET)
     = Inl (Exn ''ClientError'' ''AuthorizationError'' None None)
   \<and> send_via_eum failing_colombia_env ''+13053033060'' ''help'' =
          ([(''status'', PStr ''failed''), (''error'', PStr ''AuthorizationError''),
            (''method'', PStr ''EUM'')],
           [SendTextMessage ''+13053033060'' ORIGINATOR_NUMBER_US ''help'' MESSAGE_TYPE
              CONFIGURATION_SET])
   \<and> py_get (fst (send_sms_hybrid failing_colombia_env ''+13053033060'' ''help''
                    \<lparr>name = ''USA'', emergency_number = ''911'', language = ''en'',
                     use_eum = True, use_sns = False\<rparr>)) ''status'' = PStr ''failed''
   \<and> contact_phone (opted_contacts (fetch_user_profile_jury ''user-123'') ! 0) = JURY_PHONE_NUMBER
   \<and> py_get (fst (dispatch_emergency_sms_jury failing_jury_env
                    (fetch_user_profile_jury ''user-123'') miami critical ''0f8fad5b'') ! 0)
        ''messageId'' = PStr ''jury-demo-01234567''"
proof -
  let ?e = "Exn ''ClientError'' ''AuthorizationError'' None None"
  let ?cfg = "\<lparr>name = ''USA'', emergency_number = ''911'', language = ''en'',
                     use_eum = True, use_sns = False\<rparr>"
  let ?p = "fetch_user_profile_jury ''user-123''"
  have h1: "eum_send_text_message failing_colombia_env
      (SendTextMessage ''+13053033060'' ORIGINATOR_NUMBER_US ''help'' MESSAGE_TYPE CONFIGURATION_SET)
     = Inl ?e"
    by (simp add: failing_colombia_env_def)
  have h0: "co_get_eum_client_error failing_colombia_env = None"
    by (simp add: failing_colombia_env_def)
  have h2: "(if use_eum ?cfg
        then co_get_eum_client_error failing_colombia_env = None
           \<and> eum_send_text_message failing_colombia_env
               (SendTextMessage ''+13053033060'' ORIGINATOR_NUMBER_US ''help'' MESSAGE_TYPE
                  CONFIGURATION_SET) = Inl ?e
        else co_get_sns_client_error failing_colombia_env = None
           \<and> co_sns_publish failing_colombia_env (SnsPublish ''+13053033060'' ''help'') = Inl ?e)"
    by (simp add: failing_colombia_env_def)
  have h3: "0 < length (opted_contacts ?p)"
    "contact_phone (opted_contacts ?p ! 0) = JURY_PHONE_NUMBER"
    by (simp_all add: opted_contacts_def fetch_user_profile_jury_def)
  have h4: "jury_publish failing_jury_env 0 JURY_PHONE_NUMBER
           (jury_sms_text failing_jury_env (victim_name_of ?p) miami critical ''0f8fad5b'') = Inl ?e"
    by (simp add: failing_jury_env_def)
  have u: "take 8 (jury_uuid4_hex failing_jury_env 0) = ''01234567''"
    by (simp add: failing_jury_env_def)
  from dispatch_on_provider_exception [where cenv = failing_colombia_env
      and phone = "''+13053033060''" and message = "''help''" and e = ?e and cfg = ?cfg
      and env = failing_jury_env and profile = ?p and loc = miami and dr = critical
      and event_id = "''0f8fad5b''" and k = 0 and e' = ?e] h0 h1 h2 h3 h4 u
  show ?thesis
    by simp
qed

section \<open>Properties of the tracking handlers\<close>

text \<open>
  Claim C9.  A request that was parsed and whose \<open>action\<close> is none of the seven actions the
  handler names gets the default response: status code 200, status \<open>success\<close>, the
  operational message and the action echoed; nothing is written and nothing is logged.
\<close>

theorem handler_unknown_action:
  assumes "ev_httpMethod ev \<noteq> Some ''OPTIONS''"
    and "ev_body ev = Inr rq"
    and "rq_action rq = Some a"
    and "a \<notin> set recognized_actions"
  shows "handler env d ev =
      (cors_response
         [(''status'', PStr ''success''),
          (''message'', PStr ''AllSensesAI Lambda is operational with live tracking''),
          (''action'', PStr a),
          (''eumCompliant'', PBool True), (''liveTrackingEnabled'', PBool True),
          (''originatorNumber'', PStr ORIGINATOR_NUMBER),
          (''campaign'', PStr CONFIGURATION_SET),
          (''timestamp'', PStr (tr_utc_now_iso env))] 200, d, [])
    \<and> statusCode (fst (handler env d ev)) = 200
    \<and> py_get (body (fst (handler env d ev))) ''status'' = PStr ''success''
    \<and> py_get (body (fst (handler env d ev))) ''action'' = PStr a"
  using assms
  by (simp add: handler_def recognized_actions_def cors_response_def py_get_def)

theorem handler_unknown_action_witness:
  "handler working_tracking_env empty_db
     \<lparr>ev_httpMethod = Some ''POST'',
      ev_body = Inr (empty_request\<lparr>rq_action := Some ''DELETE_EVERYTHING''\<rparr>)\<rparr>
   = (cors_response
         [(''status'', PStr ''success''),
          (''message'', PStr ''AllSensesAI Lambda is operational with live tracking''),
          (''action'', PStr ''DELETE_EVERYTHING''),
          (''eumCompliant'', PBool True), (''liveTrackingEnabled'', PBool True),
          (''originatorNumber'', PStr ORIGINATOR_NUMBER),
          (''campaign'', PStr CONFIGURATION_SET),
          (''timestamp'', PStr ''2025-01-01T12:00:00+00:00'')] 200, empty_db, [])"
proof -
  let ?rq = "empty_request\<lparr>rq_action := Some ''DELETE_EVERYTHING''\<rparr>"
  let ?ev = "\<lparr>ev_httpMethod = Some ''POST'', ev_body = Inr ?rq\<rparr>"
  have h: "ev_httpMethod ?ev \<noteq> Some ''OPTIONS''" "ev_body ?ev = Inr ?rq"
    "rq_action ?rq = Some ''DELETE_EVERYTHING''"
    "''DELETE_EVERYTHING'' \<notin> set recognized_actions"
    by (simp_all add: recognized_actions_def)
  from handler_unknown_action [OF h, of working_tracking_env empty_db]
  show ?thesis by (simp add: working_tracking_env_def)
qed

section \<open>The alert flow when the store fails\<close>

lemma py_get_Nil: "py_get [] k = PNone"
  by (simp add: py_get_def)

lemma py_get_Cons: "py_get ((k', v) # d) k = (if k = k' then v else py_get d k)"
  by (simp add: py_get_def)

lemma eum_failure_status:
  "py_get (fst (eum_failure env phone e)) ''status'' = PStr ''failed''"
  "sent_messages (snd (eum_failure env phone e)) = []"
  by (simp_all add: eum_failure_def Let_def py_get_def sent_messages_def)

lemma send_eum_sms_status:
  "py_get (fst (send_eum_sms env phone msg)) ''status'' = PStr ''sent''
   \<or> py_get (fst (send_eum_sms env phone msg)) ''status'' = PStr ''failed''"
  by (simp add: send_eum_sms_def Let_def split_beta py_get_Cons eum_failure_status
      split: sum.splits option.splits)

lemma send_eum_sms_status_called:
  assumes "tr_get_sms_client_error env = None"
  shows "py_get (fst (send_eum_sms env phone msg)) ''status'' =
     PStr (case tr_send_text_message env
                 (SendTextMessage phone ORIGINATOR_NUMBER msg MESSAGE_TYPE CONFIGURATION_SET) of
             Inr r \<Rightarrow> ''sent'' | Inl e \<Rightarrow> ''failed'')"
  using assms
  by (simp add: send_eum_sms_def Let_def split_beta py_get_Cons eum_failure_status
      split: sum.splits)

lemma send_eum_sms_called:
  assumes "tr_get_sms_client_error env = None"
  shows "Called (SendTextMessage phone ORIGINATOR_NUMBER msg MESSAGE_TYPE CONFIGURATION_SET)
     \<in> set (snd (send_eum_sms env phone msg))"
  using assms by (simp add: send_eum_sms_def Let_def split_beta split: sum.splits)

lemma sent_messages_Cons:
  "sent_messages (Logged l # evs) = sent_messages evs"
  "sent_messages (Called (SendTextMessage a b m t c) # evs) = m # sent_messages evs"
  by (simp_all add: sent_messages_def)

lemma send_eum_sms_sent_messages:
  "sent_messages (snd (send_eum_sms env phone msg)) =
     (if tr_get_sms_client_error env = None then [msg] else [])"
  by (simp add: send_eum_sms_def Let_def split_beta sent_messages_Cons eum_failure_status
      split: sum.splits option.splits)
     (simp add: sent_messages_def)

lemma send_eum_sms_put_irrelevant:
  "send_eum_sms (env\<lparr>tr_put_incident_error := f\<rparr>) phone msg = send_eum_sms env phone msg"
  by (simp add: send_eum_sms_def eum_failure_def Let_def split: sum.splits option.splits)

lemma alert_events:
  "\<exists>ev1. snd (snd (handle_jury_emergency_alert env d rq)) =
      ev1 @ snd (send_eum_sms env (alert_phone rq) (alert_message env rq))
    \<and> (\<forall>x\<in>set ev1. \<exists>l. x = Logged l)"
  by (auto simp: handle_jury_emergency_alert_def store_incident_def Let_def split_beta
      alert_phone_def alert_message_def split: option.splits)

lemma alert_body_status:
  "py_get (body (fst (handle_jury_emergency_alert env d rq))) ''status'' =
     PStr (if py_get (fst (send_eum_sms env (alert_phone rq) (alert_message env rq))) ''status''
              = PStr ''sent''
           then ''success'' else ''partial'')"
  "statusCode (fst (handle_jury_emergency_alert env d rq)) = 200"
  by (simp_all add: handle_jury_emergency_alert_def Let_def split_beta cors_response_def
      py_get_Cons alert_phone_def alert_message_def)

lemma alert_status:
  "statusCode (fst (handle_jury_emergency_alert env d rq)) = 200
   \<and> (py_get (body (fst (handle_jury_emergency_alert env d rq))) ''status'' = PStr ''success''
      \<or> py_get (body (fst (handle_jury_emergency_alert env d rq))) ''status'' = PStr ''partial'')"
  by (simp add: alert_body_status)

lemma alert_status_called:
  assumes "tr_get_sms_client_error env = None"
  shows "py_get (body (fst (handle_jury_emergency_alert env d rq))) ''status'' =
       PStr (case tr_send_text_message env
                 (SendTextMessage (alert_phone rq) ORIGINATOR_NUMBER (alert_message env rq)
                    MESSAGE_TYPE CONFIGURATION_SET) of
             Inr r \<Rightarrow> ''success'' | Inl e \<Rightarrow> ''partial'')"
  by (simp add: alert_body_status send_eum_sms_status_called [OF assms] split: sum.splits)

lemma alert_store_down:
  assumes "\<forall>item. tr_put_incident_error env item = Some e"
  shows "fst (snd (handle_jury_emergency_alert env d rq)) = d"
    and "Logged (''Failed to store incident: '' @ exn_str e)
           \<in> set (snd (snd (handle_jury_emergency_alert env d rq)))"
  using assms
  by (simp_all add: handle_jury_emergency_alert_def store_incident_def Let_def split_beta)

lemma alert_response_store_independent:
  "fst (handle_jury_emergency_alert (env\<lparr>tr_put_incident_error := f\<rparr>) d rq)
     = fst (handle_jury_emergency_alert env d rq)"
  by (simp add: handle_jury_emergency_alert_def Let_def split_beta send_eum_sms_put_irrelevant
      tracking_sms_message_def)

lemma co_store_incident_down:
  assumes "\<forall>item. tr_put_incident_error env item = Some e"
  shows "co_store_incident env d iid vn ph dt loc cc =
           (d, [Logged (''Store incident failed: '' @ exn_str e)])"
  using assms by (simp add: co_store_incident_def Let_def)

lemma sent_messages_append: "sent_messages (a @ b) = sent_messages a @ sent_messages b"
  by (simp add: sent_messages_def)

lemma sent_messages_logged: "\<forall>x\<in>set evs. \<exists>l. x = Logged l \<Longrightarrow> sent_messages evs = []"
  by (induction evs) (auto simp: sent_messages_def)

lemma alert_sent_messages:
  "sent_messages (snd (snd (handle_jury_emergency_alert env d rq))) =
     (if tr_get_sms_client_error env = None then [alert_message env rq] else [])"
proof -
  from alert_events [of env d rq] obtain ev1 where
    e: "snd (snd (handle_jury_emergency_alert env d rq)) =
          ev1 @ snd (send_eum_sms env (alert_phone rq) (alert_message env rq))"
    and l: "\<forall>x\<in>set ev1. \<exists>l. x = Logged l"
    by blast
  show ?thesis
    by (simp add: e sent_messages_append sent_messages_logged [OF l] send_eum_sms_sent_messages)
qed

lemma alert_called:
  assumes "tr_get_sms_client_error env = None"
  shows "Called (SendTextMessage (alert_phone rq) ORIGINATOR_NUMBER (alert_message env rq)
             MESSAGE_TYPE CONFIGURATION_SET)
     \<in> set (snd (snd (handle_jury_emergency_alert env d rq)))"
proof -
  from alert_events [of env d rq] obtain ev1 where
    e: "snd (snd (handle_jury_emergency_alert env d rq)) =
          ev1 @ snd (send_eum_sms env (alert_phone rq) (alert_message env rq))"
    by blast
  show ?thesis
    by (simp add: e send_eum_sms_called [OF assms])
qed

text \<open>
  Claim C7.  When every write of the incident store raises, the emergency alert still runs to
  its end: the response has status code 200 and status \<open>success\<close> or \<open>partial\<close>, never
  \<open>error\<close>, and it is the response a working store would have given; the failure is logged
  and the store is left as it was.  The dispatch is attempted all the same: where the
  messaging client can be created, the provider's send is called with the composed message,
  and the status is \<open>success\<close> or \<open>partial\<close> as that call went.  The Colombia variant's
  \<open>store_incident\<close> logs the failure and returns, so its caller goes on to the dispatch as
  well.
\<close>

theorem store_failure_does_not_abort_alert:
  assumes "\<forall>item. tr_put_incident_error env item = Some e"
  shows "statusCode (fst (handle_jury_emergency_alert env d rq)) = 200
   \<and> (py_get (body (fst (handle_jury_emergency_alert env d rq))) ''status'' = PStr ''success''
      \<or> py_get (body (fst (handle_jury_emergency_alert env d rq))) ''status'' = PStr ''partial'')
   \<and> (tr_get_sms_client_error env = None \<longrightarrow>
        Called (SendTextMessage (alert_phone rq) ORIGINATOR_NUMBER (alert_message env rq)
                  MESSAGE_TYPE CONFIGURATION_SET)
          \<in> set (snd (snd (handle_jury_emergency_alert env d rq)))
      \<and> sent_messages (snd (snd (handle_jury_emergency_alert env d rq)))
          = [alert_message env rq]
      \<and> py_get (body (fst (handle_jury_emergency_alert env d rq))) ''status'' =
          PStr (case tr_send_text_message env
                    (SendTextMessage (alert_phone rq) ORIGINATOR_NUMBER (alert_message env rq)
                       MESSAGE_TYPE CONFIGURATION_SET) of
                  Inr r \<Rightarrow> ''success'' | Inl x \<Rightarrow> ''partial''))
   \<and> Logged (''Failed to store incident: '' @ exn_str e)
       \<in> set (snd (snd (handle_jury_emergency_alert env d rq)))
   \<and> fst (snd (handle_jury_emergency_alert env d rq)) = d
   \<and> fst (handle_jury_emergency_alert env d rq) =
       fst (handle_jury_emergency_alert (env\<lparr>tr_put_incident_error := (\<lambda>i. None)\<rparr>) d rq)
   \<and> co_store_incident env d iid vn ph dt loc cc =
       (d, [Logged (''Store incident failed: '' @ exn_str e)])"
proof -
  have c: "tr_get_sms_client_error env = None \<longrightarrow>
        Called (SendTextMessage (alert_phone rq) ORIGINATOR_NUMBER (alert_message env rq)
                  MESSAGE_TYPE CONFIGURATION_SET)
          \<in> set (snd (snd (handle_jury_emergency_alert env d rq)))
      \<and> sent_messages (snd (snd (handle_jury_emergency_alert env d rq)))
          = [alert_message env rq]
      \<and> py_get (body (fst (handle_jury_emergency_alert env d rq))) ''status'' =
          PStr (case tr_send_text_message env
                    (SendTextMessage (alert_phone rq) ORIGINATOR_NUMBER (alert_message env rq)
                       MESSAGE_TYPE CONFIGURATION_SET) of
                  Inr r \<Rightarrow> ''success'' | Inl x \<Rightarrow> ''partial'')"
    using alert_called [of env rq d] alert_sent_messages [of env d rq]
      alert_status_called [of env d rq]
    by simp
  note s = alert_status [of env d rq]
  note i = alert_response_store_independent [where env = env and f = "\<lambda>i. None" and d = d
      and rq = rq, symmetric]
  show ?thesis
    by (intro conjI)
       (rule s [THEN conjunct1] s [THEN conjunct2] c alert_store_down [OF assms] i
          co_store_incident_down [OF assms])+
qed

theorem store_failure_does_not_abort_alert_witness:
  "statusCode (fst (handle_jury_emergency_alert store_down_env empty_db empty_request)) = 200
   \<and> py_get (body (fst (handle_jury_emergency_alert store_down_env empty_db empty_request)))
        ''status'' = PStr ''success''
   \<and> sent_messages (snd (snd (handle_jury_emergency_alert store_down_env empty_db empty_request)))
       = [alert_message store_down_env empty_request]
   \<and> Logged ''Failed to store incident: store unavailable''
       \<in> set (snd (snd (handle_jury_emergency_alert store_down_env empty_db empty_request)))
   \<and> fst (snd (handle_jury_emergency_alert store_down_env empty_db empty_request)) = empty_db"
proof -
  let ?e = "Exn ''EndpointConnectionError'' ''store unavailable'' None None"
  have h: "\<forall>item. tr_put_incident_error store_down_env item = Some ?e"
    by (simp add: store_down_env_def)
  have k: "tr_get_sms_client_error store_down_env = None"
    by (simp add: store_down_env_def working_tracking_env_def)
  have s: "tr_send_text_message store_down_env c = Inr [(''MessageId'', PStr ''msg-0001'')]" for c
    by (simp add: store_down_env_def working_tracking_env_def)
  note t = store_failure_does_not_abort_alert [OF h, of empty_db empty_request]
  note c1 = t [THEN conjunct1]
  note c3 = t [THEN conjunct2, THEN conjunct2, THEN conjunct1, rule_format, OF k]
  note c4 = t [THEN conjunct2, THEN conjunct2, THEN conjunct2, THEN conjunct1]
  note c5 = t [THEN conjunct2, THEN conjunct2, THEN conjunct2, THEN conjunct2, THEN conjunct1]
  from c1 c3 c4 c5 show ?thesis
    by (simp add: s)
qed


section \<open>The location update\<close>

lemma update_item_key:
  "rq_incidentId rq = Some i \<Longrightarrow>
     li_incidentId (update_item env rq) = i \<and> li_timestamp (update_item env rq) = tr_now_ms env"
  "rq_incidentId rq = Some i \<Longrightarrow>
     li_incidentId (co_update_item env rq) = i \<and> li_timestamp (co_update_item env rq) = tr_now_ms env"
  by (simp_all add: update_item_def co_update_item_def Let_def)

lemma put_location_member: "item \<in> set (put_location item tbl)"
  by (simp add: put_location_def)

lemma handle_update_location_missing:
  assumes "\<not> truthy_str (rq_incidentId rq)"
  shows "handle_update_location env d rq =
           (cors_response
              [(''status'', PStr ''error''), (''message'', PStr ''incidentId is required'')] 400,
            d, [])"
    and "co_handle_update_location env d rq =
           (cors_response
              [(''status'', PStr ''error''), (''message'', PStr ''incidentId required'')] 400,
            d, [])"
  using assms by (simp_all add: handle_update_location_def co_handle_update_location_def Let_def)

lemma handle_update_location_present:
  assumes "rq_incidentId rq = Some i" and "i \<noteq> []"
  shows "handle_update_location env d rq =
     (case tr_put_location_error env (update_item env rq) of
        None \<Rightarrow>
          (cors_response
             [(''status'', PStr ''success''), (''message'', PStr ''Location updated successfully''),
              (''incidentId'', PStr i), (''timestamp'', PInt (tr_now_ms env))] 200,
           d\<lparr>locations := put_location (update_item env rq) (locations d)\<rparr>, [])
      | Some e \<Rightarrow>
          (cors_response
             [(''status'', PStr ''error''), (''message'', PStr (exn_str e)),
              (''errorType'', PStr (exn_type e))] 500,
           d, [Logged (''Update location error: '' @ exn_str e)]))"
proof -
  define loc where "loc = (case rq_location rq of None \<Rightarrow> empty_location | Some l \<Rightarrow> l)"
  show ?thesis
    unfolding handle_update_location_def update_item_def Let_def loc_def [symmetric]
    using assms by (simp add: truthy_str_def split: option.split)
qed

lemma co_handle_update_location_present:
  assumes "rq_incidentId rq = Some i" and "i \<noteq> []"
  shows "co_handle_update_location env d rq =
     (cors_response [(''status'', PStr ''success''), (''incidentId'', PStr i)] 200,
      case tr_put_location_error env (co_update_item env rq) of
        None \<Rightarrow> d\<lparr>locations := put_location (co_update_item env rq) (locations d)\<rparr>
      | Some e \<Rightarrow> d,
      case tr_put_location_error env (co_update_item env rq) of
        None \<Rightarrow> []
      | Some e \<Rightarrow> [Logged (''Store location failed: '' @ exn_str e)])"
proof -
  define loc where "loc = (case rq_location rq of None \<Rightarrow> empty_location | Some l \<Rightarrow> l)"
  define vn where "vn = (case rq_victimName rq of None \<Rightarrow> ''Unknown'' | Some v \<Rightarrow> v)"
  define bl where "bl = (if truthy_num (rq_batteryLevel rq)
             then map_option (\<lambda>b. of_int (py_int b)) (rq_batteryLevel rq) else None :: rat option)"
  show ?thesis
    unfolding co_handle_update_location_def co_store_location_update_def co_update_item_def
      Let_def loc_def [symmetric] vn_def [symmetric] bl_def [symmetric]
    using assms by (simp add: truthy_str_def split: option.split)
qed


lemma handle_update_location_ignores_incidents:
  "fst (handle_update_location env (d\<lparr>incidents := tbl\<rparr>) rq) = fst (handle_update_location env d rq)
   \<and> locations (fst (snd (handle_update_location env (d\<lparr>incidents := tbl\<rparr>) rq)))
       = locations (fst (snd (handle_update_location env d rq)))"
proof (cases "truthy_str (rq_incidentId rq)")
  case False
  then show ?thesis by (simp add: handle_update_location_missing)
next
  case True
  then obtain i where i: "rq_incidentId rq = Some i" "i \<noteq> []"
    by (auto simp: truthy_str_def split: option.splits)
  show ?thesis
    by (cases "tr_put_location_error env (update_item env rq)")
       (simp_all add: handle_update_location_present [OF i])
qed

text \<open>
  Claim C10, as stated, fails: an \<open>incidentId\<close> that is present but empty is refused like an
  absent one, with status code 400 and no write.
\<close>

theorem handle_update_location_counterexample:
  "handle_update_location working_tracking_env empty_db (empty_request\<lparr>rq_incidentId := Some []\<rparr>)
     = (cors_response
          [(''status'', PStr ''error''), (''message'', PStr ''incidentId is required'')] 400,
        empty_db, [])"
  by (simp add: handle_update_location_missing truthy_str_def empty_request_def)

text \<open>
  Claim C10, amended.  An UPDATE_LOCATION request whose \<open>incidentId\<close> is absent or empty gets
  status code 400 with status \<open>error\<close>, and the store is unchanged.  Otherwise the handler
  builds a fix keyed by (incidentId, current time in milliseconds) and writes it without
  reading the incidents table, so a fix for an unknown incident is accepted.  In the tracking
  variant the response is 200 \<open>success\<close> when the store takes the write, and 500 \<open>error\<close>
  with the store unchanged when the write raises.  In the Colombia variant the response is
  200 \<open>success\<close> either way: a write that raises is logged and the store is unchanged.
\<close>

theorem handle_update_location_amended:
  "(\<not> truthy_str (rq_incidentId rq) \<longrightarrow>
      handle_update_location env d rq =
        (cors_response
           [(''status'', PStr ''error''), (''message'', PStr ''incidentId is required'')] 400,
         d, [])
    \<and> co_handle_update_location env d rq =
        (cors_response
           [(''status'', PStr ''error''), (''message'', PStr ''incidentId required'')] 400,
         d, []))
   \<and> (rq_incidentId rq = Some i \<and> i \<noteq> [] \<longrightarrow>
        li_incidentId (update_item env rq) = i
      \<and> li_timestamp (update_item env rq) = tr_now_ms env
      \<and> li_incidentId (co_update_item env rq) = i
      \<and> li_timestamp (co_update_item env rq) = tr_now_ms env
      \<and> handle_update_location env d rq =
          (case tr_put_location_error env (update_item env rq) of
             None \<Rightarrow>
               (cors_response
                  [(''status'', PStr ''success''),
                   (''message'', PStr ''Location updated successfully''),
                   (''incidentId'', PStr i), (''timestamp'', PInt (tr_now_ms env))] 200,
                d\<lparr>locations := put_location (update_item env rq) (locations d)\<rparr>, [])
           | Some e \<Rightarrow>
               (cors_response
                  [(''status'', PStr ''error''), (''message'', PStr (exn_str e)),
                   (''errorType'', PStr (exn_type e))] 500,
                d, [Logged (''Update location error: '' @ exn_str e)]))
      \<and> co_handle_update_location env d rq =
          (cors_response [(''status'', PStr ''success''), (''incidentId'', PStr i)] 200,
           case tr_put_location_error env (co_update_item env rq) of
             None \<Rightarrow> d\<lparr>locations := put_location (co_update_item env rq) (locations d)\<rparr>
           | Some e \<Rightarrow> d,
           case tr_put_location_error env (co_update_item env rq) of
             None \<Rightarrow> []
           | Some e \<Rightarrow> [Logged (''Store location failed: '' @ exn_str e)])
      \<and> update_item env rq \<in> set (put_location (update_item env rq) (locations d))
      \<and> co_update_item env rq \<in> set (put_location (co_update_item env rq) (locations d)))
   \<and> fst (handle_update_location env (d\<lparr>incidents := tbl\<rparr>) rq)
        = fst (handle_update_location env d rq)
   \<and> locations (fst (snd (handle_update_location env (d\<lparr>incidents := tbl\<rparr>) rq)))
        = locations (fst (snd (handle_update_location env d rq)))"
proof -
  have a: "\<not> truthy_str (rq_incidentId rq) \<longrightarrow>
      handle_update_location env d rq =
        (cors_response
           [(''status'', PStr ''error''), (''message'', PStr ''incidentId is required'')] 400,
         d, [])
    \<and> co_handle_update_location env d rq =
        (cors_response
           [(''status'', PStr ''error''), (''message'', PStr ''incidentId required'')] 400,
         d, [])"
    using handle_update_location_missing by blast
  have b: "rq_incidentId rq = Some i \<and> i \<noteq> [] \<longrightarrow>
        li_incidentId (update_item env rq) = i
      \<and> li_timestamp (update_item env rq) = tr_now_ms env
      \<and> li_incidentId (co_update_item env rq) = i
      \<and> li_timestamp (co_update_item env rq) = tr_now_ms env
      \<and> handle_update_location env d rq =
          (case tr_put_location_error env (update_item env rq) of
             None \<Rightarrow>
               (cors_response
                  [(''status'', PStr ''success''),
                   (''message'', PStr ''Location updated successfully''),
                   (''incidentId'', PStr i), (''timestamp'', PInt (tr_now_ms env))] 200,
                d\<lparr>locations := put_location (update_item env rq) (locations d)\<rparr>, [])
           | Some e \<Rightarrow>
               (cors_response
                  [(''status'', PStr ''error''), (''message'', PStr (exn_str e)),
                   (''errorType'', PStr (exn_type e))] 500,
                d, [Logged (''Update location error: '' @ exn_str e)]))
      \<and> co_handle_update_location env d rq =
          (cors_response [(''status'', PStr ''success''), (''incidentId'', PStr i)] 200,
           case tr_put_location_error env (co_update_item env rq) of
             None \<Rightarrow> d\<lparr>locations := put_location (co_update_item env rq) (locations d)\<rparr>
           | Some e \<Rightarrow> d,
           case tr_put_location_error env (co_update_item env rq) of
             None \<Rightarrow> []
           | Some e \<Rightarrow> [Logged (''Store location failed: '' @ exn_str e)])
      \<and> update_item env rq \<in> set (put_location (update_item env rq) (locations d))
      \<and> co_update_item env rq \<in> set (put_location (co_update_item env rq) (locations d))"
  proof (intro impI, elim conjE)
    assume i: "rq_incidentId rq = Some i" "i \<noteq> []"
    note k = update_item_key [OF i(1), of env]
    show "li_incidentId (update_item env rq) = i
      \<and> li_timestamp (update_item env rq) = tr_now_ms env
      \<and> li_incidentId (co_update_item env rq) = i
      \<and> li_timestamp (co_update_item env rq) = tr_now_ms env
      \<and> handle_update_location env d rq =
          (case tr_put_location_error env (update_item env rq) of
             None \<Rightarrow>
               (cors_response
                  [(''status'', PStr ''success''),
                   (''message'', PStr ''Location updated successfully''),
                   (''incidentId'', PStr i), (''timestamp'', PInt (tr_now_ms env))] 200,
                d\<lparr>locations := put_location (update_item env rq) (locations d)\<rparr>, [])
           | Some e \<Rightarrow>
               (cors_response
                  [(''status'', PStr ''error''), (''message'', PStr (exn_str e)),
                   (''errorType'', PStr (exn_type e))] 500,
                d, [Logged (''Update location error: '' @ exn_str e)]))
      \<and> co_handle_update_location env d rq =
          (cors_response [(''status'', PStr ''success''), (''incidentId'', PStr i)] 200,
           case tr_put_location_error env (co_update_item env rq) of
             None \<Rightarrow> d\<lparr>locations := put_location (co_update_item env rq) (locations d)\<rparr>
           | Some e \<Rightarrow> d,
           case tr_put_location_error env (co_update_item env rq) of
             None \<Rightarrow> []
           | Some e \<Rightarrow> [Logged (''Store location failed: '' @ exn_str e)])
      \<and> update_item env rq \<in> set (put_location (update_item env rq) (locations d))
      \<and> co_update_item env rq \<in> set (put_location (co_update_item env rq) (locations d))"
      by (intro conjI)
         (rule k [THEN conjunct1] k [THEN conjunct2] handle_update_location_present [OF i]
            co_handle_update_location_present [OF i] put_location_member)+
  qed
  note c = handle_update_location_ignores_incidents [where env = env and d = d and tbl = tbl and rq = rq]
  show ?thesis
    by (intro conjI) (rule a b c [THEN conjunct1] c [THEN conjunct2])+
qed

theorem handle_update_location_amended_witness:
  "\<not> truthy_str (rq_incidentId empty_request)
   \<and> statusCode (fst (handle_update_location working_tracking_env empty_db empty_request)) = 400
   \<and> fst (snd (handle_update_location working_tracking_env empty_db empty_request)) = empty_db
   \<and> incidents empty_db = []
   \<and> statusCode (fst (handle_update_location working_tracking_env empty_db
                         (empty_request\<lparr>rq_incidentId := Some ''EMG-UNKNOWN''\<rparr>))) = 200
   \<and> map (\<lambda>x. (li_incidentId x, li_timestamp x))
        (locations (fst (snd (handle_update_location working_tracking_env empty_db
                                (empty_request\<lparr>rq_incidentId := Some ''EMG-UNKNOWN''\<rparr>)))))
       = [(''EMG-UNKNOWN'', 1735732800000)]"
proof -
  let ?rq = "empty_request\<lparr>rq_incidentId := Some ''EMG-UNKNOWN''\<rparr>"
  have h0: "\<not> truthy_str (rq_incidentId empty_request)"
    by (simp add: empty_request_def truthy_str_def)
  have h1: "rq_incidentId ?rq = Some ''EMG-UNKNOWN'' \<and> ''EMG-UNKNOWN'' \<noteq> []"
    by simp
  have p: "tr_put_location_error working_tracking_env x = None" for x
    by (simp add: working_tracking_env_def)
  have n: "tr_now_ms working_tracking_env = 1735732800000"
    by (simp add: working_tracking_env_def)
  note t0 = handle_update_location_amended [where rq = empty_request and env = working_tracking_env
      and d = empty_db,
      THEN conjunct1, rule_format, OF h0, THEN conjunct1]
  note t1 = handle_update_location_amended [where rq = ?rq and env = working_tracking_env
      and d = empty_db and i = "''EMG-UNKNOWN''",
      THEN conjunct2, THEN conjunct1, rule_format, OF h1]
  from h0 t0 t1 show ?thesis
    by (simp add: p n cors_response_def empty_db_def put_location_def)
qed

section \<open>The location history\<close>

lemma query_table_ok:
  assumes "tr_query_error env i = None" and "1 \<le> n"
  shows "query_table env d i fwd n =
           Inr (take (nat n) (if fwd then fixes_of d i else rev (fixes_of d i)))"
  using assms by (simp add: query_table_def query_locations_def fixes_of_def Let_def)

lemma dicts_of_PDict:
  "concat (map (\<lambda>v. case v of PDict x \<Rightarrow> [x] | _ \<Rightarrow> []) (map (PDict \<circ> f) xs)) = map f xs"
  by (induction xs) simp_all

lemma response_dicts_cors:
  assumes "map_of data k = Some (PList (map (PDict \<circ> f) xs))"
  shows "response_dicts (cors_response data s) k = map f xs"
  unfolding response_dicts_def cors_response_def py_get_def
  by (simp only: response.simps assms option.case pyval.case dicts_of_PDict)

lemma history_response:
  assumes "rq_incidentId rq = Some i" and "i \<noteq> []"
    and "tr_query_error env i = None" and "1 \<le> history_limit rq"
  shows "handle_get_location_history env d rq =
     (cors_response
        [(''status'', PStr ''success''), (''incidentId'', PStr i),
         (''locationCount'',
          PInt (int (length (take (nat (history_limit rq)) (rev (fixes_of d i)))))),
         (''locations'',
          PList (map (PDict \<circ> location_json)
             (take (nat (history_limit rq)) (rev (fixes_of d i)))))] 200,
      d, [])"
  using assms
  by (simp add: handle_get_location_history_def Let_def truthy_str_def history_limit_def
      query_table_ok)

lemma lt_history_response:
  assumes "rq_incidentId rq = Some i" and "i \<noteq> []"
    and "tr_query_error env i = None" and "1 \<le> history_limit rq"
  shows "lt_handle_get_location_history env d rq =
     (cors_response
        [(''status'', PStr ''success''),
         (''history'', PList (map (PDict \<circ> item_dict)
             (take (nat (history_limit rq)) (fixes_of d i)))),
         (''count'', PInt (int (length (take (nat (history_limit rq)) (fixes_of d i))))),
         (''timestamp'', PStr (tr_utc_now_iso env))] 200,
      d, [])"
  using assms
  by (simp add: lt_handle_get_location_history_def Let_def truthy_str_def history_limit_def
      query_table_ok)

lemma history_dicts:
  assumes "rq_incidentId rq = Some i" and "i \<noteq> []"
    and "tr_query_error env i = None" and "1 \<le> history_limit rq"
  shows "response_dicts (fst (handle_get_location_history env d rq)) ''locations'' =
           map location_json (take (nat (history_limit rq)) (rev (fixes_of d i)))"
    and "response_dicts (fst (lt_handle_get_location_history env d rq)) ''history'' =
           map item_dict (take (nat (history_limit rq)) (fixes_of d i))"
    and "statusCode (fst (handle_get_location_history env d rq)) = 200"
    and "statusCode (fst (lt_handle_get_location_history env d rq)) = 200"
proof -
  show "response_dicts (fst (handle_get_location_history env d rq)) ''locations'' =
           map location_json (take (nat (history_limit rq)) (rev (fixes_of d i)))"
    unfolding history_response [OF assms] fst_conv
    by (rule response_dicts_cors) simp
  show "response_dicts (fst (lt_handle_get_location_history env d rq)) ''history'' =
           map item_dict (take (nat (history_limit rq)) (fixes_of d i))"
    unfolding lt_history_response [OF assms] fst_conv
    by (rule response_dicts_cors) simp
  show "statusCode (fst (handle_get_location_history env d rq)) = 200"
    by (simp add: history_response [OF assms] cors_response_def)
  show "statusCode (fst (lt_handle_get_location_history env d rq)) = 200"
    by (simp add: lt_history_response [OF assms] cors_response_def)
qed

lemma fixes_sorted: "sorted (map li_timestamp (fixes_of d i))"
  by (simp add: fixes_of_def)

lemma take_fixes_ascending: "sorted (map li_timestamp (take k (fixes_of d i)))"
  using fixes_sorted [of d i] by (simp add: take_map [symmetric] sorted_wrt_take)

lemma take_rev_fixes_descending:
  "sorted_wrt (\<lambda>a b. b \<le> a) (map li_timestamp (take k (rev (fixes_of d i))))"
proof -
  have "sorted_wrt (\<lambda>a b. b \<le> a) (rev (map li_timestamp (fixes_of d i)))"
    using fixes_sorted [of d i] by (simp add: sorted_wrt_rev)
  then have "sorted_wrt (\<lambda>a b. b \<le> a) (take k (rev (map li_timestamp (fixes_of d i))))"
    by (rule sorted_wrt_take)
  then show ?thesis by (simp add: take_map rev_map)
qed

lemma history_ignores_other:
  "handle_get_location_history env d (rq\<lparr>rq_other := other\<rparr>) = handle_get_location_history env d rq"
  "lt_handle_get_location_history env d (rq\<lparr>rq_other := other\<rparr>)
     = lt_handle_get_location_history env d rq"
  by (simp_all add: handle_get_location_history_def lt_handle_get_location_history_def)

lemma mset_eq_short:
  assumes "mset xs = mset ys" and "length ys \<le> 1"
  shows "xs = ys"
proof (cases ys)
  case Nil
  with assms(1) show ?thesis by simp
next
  case (Cons y r)
  with assms(2) have "ys = [y]" by simp
  with assms(1) show ?thesis by simp
qed

lemma three_fixes:
  assumes "mset (filter (\<lambda>x. li_incidentId x = i) (locations d)) = {#f1, f2, f3#}"
    and "li_timestamp f1 < li_timestamp f2" and "li_timestamp f2 < li_timestamp f3"
  shows "fixes_of d i = [f1, f2, f3]"
  unfolding fixes_of_def
proof (rule properties_for_sort_key)
  show "mset [f1, f2, f3] = mset (filter (\<lambda>x. li_incidentId x = i) (locations d))"
    using assms(1) by simp
  show "sorted (map li_timestamp [f1, f2, f3])"
    using assms(2,3) by simp
next
  fix k assume "k \<in> set [f1, f2, f3]"
  let ?xs = "filter (\<lambda>x. li_incidentId x = i) (locations d)"
  have "mset ?xs = mset [f1, f2, f3]"
    using assms(1) by simp
  then have "mset (filter (\<lambda>x. li_timestamp k = li_timestamp x) ?xs)
        = mset (filter (\<lambda>x. li_timestamp k = li_timestamp x) [f1, f2, f3])"
    by (simp only: mset_filter)
  moreover have "length (filter (\<lambda>x. li_timestamp k = li_timestamp x) [f1, f2, f3]) \<le> 1"
    using assms(2,3) by auto
  ultimately have "filter (\<lambda>x. li_timestamp k = li_timestamp x) ?xs
        = filter (\<lambda>x. li_timestamp k = li_timestamp x) [f1, f2, f3]"
    by (rule mset_eq_short)
  then show "filter (\<lambda>x. li_timestamp k = li_timestamp x) [f1, f2, f3]
      = filter (\<lambda>x. li_timestamp k = li_timestamp x) ?xs"
    by simp
qed


lemma query_table_length:
  "query_table env d i fwd n = Inr items \<Longrightarrow> length items \<le> nat n"
  by (auto simp: query_table_def query_locations_def Let_def split: option.splits if_splits)

lemma history_length:
  "length (response_dicts (fst (handle_get_location_history env d rq)) ''locations'')
     \<le> nat (history_limit rq)"
proof (cases "truthy_str (rq_incidentId rq)")
  case False
  then show ?thesis
    by (simp add: handle_get_location_history_def Let_def response_dicts_def cors_response_def
        py_get_def)
next
  case True
  then obtain i where i: "rq_incidentId rq = Some i" "i \<noteq> []"
    by (auto simp: truthy_str_def split: option.splits)
  show ?thesis
  proof (cases "query_table env d i False (history_limit rq)")
    case (Inl e)
    with i show ?thesis
      by (simp add: handle_get_location_history_def Let_def response_dicts_def cors_response_def
          py_get_def truthy_str_def history_limit_def)
  next
    case (Inr items)
    have "fst (handle_get_location_history env d rq) =
        cors_response
          [(''status'', PStr ''success''), (''incidentId'', PStr i),
           (''locationCount'', PInt (int (length items))),
           (''locations'', PList (map (PDict \<circ> location_json) items))] 200"
      using i Inr
      by (simp add: handle_get_location_history_def Let_def truthy_str_def history_limit_def)
    then have "response_dicts (fst (handle_get_location_history env d rq)) ''locations''
        = map location_json items"
      by (simp only:) (rule response_dicts_cors, simp)
    with query_table_length [OF Inr] show ?thesis by simp
  qed
qed

lemma lt_history_length:
  "length (response_dicts (fst (lt_handle_get_location_history env d rq)) ''history'')
     \<le> nat (history_limit rq)"
proof (cases "truthy_str (rq_incidentId rq)")
  case False
  then show ?thesis
    by (simp add: lt_handle_get_location_history_def Let_def response_dicts_def cors_response_def
        py_get_def)
next
  case True
  then obtain i where i: "rq_incidentId rq = Some i" "i \<noteq> []"
    by (auto simp: truthy_str_def split: option.splits)
  show ?thesis
  proof (cases "query_table env d i True (history_limit rq)")
    case (Inl e)
    with i show ?thesis
      by (simp add: lt_handle_get_location_history_def Let_def response_dicts_def
          cors_response_def py_get_def truthy_str_def history_limit_def)
  next
    case (Inr items)
    have "fst (lt_handle_get_location_history env d rq) =
        cors_response
          [(''status'', PStr ''success''),
           (''history'', PList (map (PDict \<circ> item_dict) items)),
           (''count'', PInt (int (length items))),
           (''timestamp'', PStr (tr_utc_now_iso env))] 200"
      using i Inr
      by (simp add: lt_handle_get_location_history_def Let_def truthy_str_def history_limit_def)
    then have "response_dicts (fst (lt_handle_get_location_history env d rq)) ''history''
        = map item_dict items"
      by (simp only:) (rule response_dicts_cors, simp)
    with query_table_length [OF Inr] show ?thesis by simp
  qed
qed

text \<open>
  Claim C6.  The store's query returns at most \<open>Limit\<close> fixes of the incident, in ascending
  order of capture time when the caller passes \<open>ScanIndexForward=True\<close> and in descending
  order when it passes \<open>False\<close>.  Both orders have a call site: the history handler of the
  tracking variant asks for descending order and answers with the newest fixes first, the
  one of the live-tracking variant asks for ascending order and answers with the oldest
  first; neither ever answers with more than \<open>limit\<close> fixes.  With three stored fixes at times
  T1 < T2 < T3 and limit 2, the descending call site returns the fix at T3, then the fix at
  T2.
\<close>

theorem get_location_history_orders:
  "length (response_dicts (fst (handle_get_location_history env d rq)) ''locations'')
      \<le> nat (history_limit rq)
   \<and> length (response_dicts (fst (lt_handle_get_location_history env d rq)) ''history'')
      \<le> nat (history_limit rq)
   \<and> (tr_query_error env i = None \<and> 1 \<le> n \<longrightarrow>
        query_table env d i True n = Inr (take (nat n) (fixes_of d i))
      \<and> query_table env d i False n = Inr (take (nat n) (rev (fixes_of d i))))
   \<and> sorted (map li_timestamp (take (nat n) (fixes_of d i)))
   \<and> sorted_wrt (\<lambda>a b. b \<le> a) (map li_timestamp (take (nat n) (rev (fixes_of d i))))
   \<and> (rq_incidentId rq = Some i \<and> i \<noteq> [] \<and> tr_query_error env i = None
       \<and> 1 \<le> history_limit rq \<longrightarrow>
        statusCode (fst (handle_get_location_history env d rq)) = 200
      \<and> response_dicts (fst (handle_get_location_history env d rq)) ''locations'' =
           map location_json (take (nat (history_limit rq)) (rev (fixes_of d i)))
      \<and> statusCode (fst (lt_handle_get_location_history env d rq)) = 200
      \<and> response_dicts (fst (lt_handle_get_location_history env d rq)) ''history'' =
           map item_dict (take (nat (history_limit rq)) (fixes_of d i)))
   \<and> (rq_incidentId rq = Some i \<and> i \<noteq> [] \<and> tr_query_error env i = None
       \<and> rq_limit rq = Some 2
       \<and> mset (filter (\<lambda>x. li_incidentId x = i) (locations d)) = {#f1, f2, f3#}
       \<and> li_timestamp f1 < li_timestamp f2 \<and> li_timestamp f2 < li_timestamp f3 \<longrightarrow>
        response_dicts (fst (handle_get_location_history env d rq)) ''locations'' =
           [location_json f3, location_json f2]
      \<and> response_dicts (fst (lt_handle_get_location_history env d rq)) ''history'' =
           [item_dict f1, item_dict f2])"
proof -
  have q: "tr_query_error env i = None \<and> 1 \<le> n \<longrightarrow>
        query_table env d i True n = Inr (take (nat n) (fixes_of d i))
      \<and> query_table env d i False n = Inr (take (nat n) (rev (fixes_of d i)))"
    by (simp add: query_table_ok)
  have h: "rq_incidentId rq = Some i \<and> i \<noteq> [] \<and> tr_query_error env i = None
       \<and> 1 \<le> history_limit rq \<longrightarrow>
        statusCode (fst (handle_get_location_history env d rq)) = 200
      \<and> response_dicts (fst (handle_get_location_history env d rq)) ''locations'' =
           map location_json (take (nat (history_limit rq)) (rev (fixes_of d i)))
      \<and> statusCode (fst (lt_handle_get_location_history env d rq)) = 200
      \<and> response_dicts (fst (lt_handle_get_location_history env d rq)) ''history'' =
           map item_dict (take (nat (history_limit rq)) (fixes_of d i))"
    using history_dicts [of rq i env d] by blast
  have s: "rq_incidentId rq = Some i \<and> i \<noteq> [] \<and> tr_query_error env i = None
       \<and> rq_limit rq = Some 2
       \<and> mset (filter (\<lambda>x. li_incidentId x = i) (locations d)) = {#f1, f2, f3#}
       \<and> li_timestamp f1 < li_timestamp f2 \<and> li_timestamp f2 < li_timestamp f3 \<longrightarrow>
        response_dicts (fst (handle_get_location_history env d rq)) ''locations'' =
           [location_json f3, location_json f2]
      \<and> response_dicts (fst (lt_handle_get_location_history env d rq)) ''history'' =
           [item_dict f1, item_dict f2]"
  proof (intro impI, elim conjE)
    assume a: "rq_incidentId rq = Some i" "i \<noteq> []" "tr_query_error env i = None"
      and l: "rq_limit rq = Some 2"
      and m: "mset (filter (\<lambda>x. li_incidentId x = i) (locations d)) = {#f1, f2, f3#}"
      and t: "li_timestamp f1 < li_timestamp f2" "li_timestamp f2 < li_timestamp f3"
    from l have hl: "history_limit rq = 2" by (simp add: history_limit_def)
    then have one: "1 \<le> history_limit rq" by simp
    have two: "nat 2 = Suc (Suc 0)" by simp
    note f = three_fixes [OF m t]
    show "response_dicts (fst (handle_get_location_history env d rq)) ''locations'' =
           [location_json f3, location_json f2]
      \<and> response_dicts (fst (lt_handle_get_location_history env d rq)) ''history'' =
           [item_dict f1, item_dict f2]"
      by (simp add: history_dicts [OF a one] hl f two)
  qed
  show ?thesis
    by (intro conjI)
       (rule history_length lt_history_length q take_fixes_ascending take_rev_fixes_descending
          h s)+
qed

theorem get_location_history_orders_witness:
  "mset (filter (\<lambda>x. li_incidentId x = ''EMG-1'') (locations three_fixes_db))
     = {#fix_at 1000, fix_at 2000, fix_at 3000#}
   \<and> li_timestamp (fix_at 1000) < li_timestamp (fix_at 2000)
   \<and> li_timestamp (fix_at 2000) < li_timestamp (fix_at 3000)
   \<and> response_timestamps
        (fst (handle_get_location_history working_tracking_env three_fixes_db
                (empty_request\<lparr>rq_incidentId := Some ''EMG-1'', rq_limit := Some 2\<rparr>)))
        ''locations'' = [PInt 3000, PInt 2000]
   \<and> response_timestamps
        (fst (lt_handle_get_location_history working_tracking_env three_fixes_db
                (empty_request\<lparr>rq_incidentId := Some ''EMG-1'', rq_limit := Some 2\<rparr>)))
        ''history'' = [PInt 1000, PInt 2000]"
proof -
  let ?rq = "empty_request\<lparr>rq_incidentId := Some ''EMG-1'', rq_limit := Some 2\<rparr>"
  have m: "mset (filter (\<lambda>x. li_incidentId x = ''EMG-1'') (locations three_fixes_db))
     = {#fix_at 1000, fix_at 2000, fix_at 3000#}"
    by (simp add: three_fixes_db_def fix_at_def)
  have t: "li_timestamp (fix_at 1000) < li_timestamp (fix_at 2000)"
    "li_timestamp (fix_at 2000) < li_timestamp (fix_at 3000)"
    by (simp_all add: fix_at_def)
  have h: "rq_incidentId ?rq = Some ''EMG-1'' \<and> ''EMG-1'' \<noteq> []
       \<and> tr_query_error working_tracking_env ''EMG-1'' = None
       \<and> rq_limit ?rq = Some 2
       \<and> mset (filter (\<lambda>x. li_incidentId x = ''EMG-1'') (locations three_fixes_db))
            = {#fix_at 1000, fix_at 2000, fix_at 3000#}
       \<and> li_timestamp (fix_at 1000) < li_timestamp (fix_at 2000)
       \<and> li_timestamp (fix_at 2000) < li_timestamp (fix_at 3000)"
    using m t by (simp add: working_tracking_env_def)
  note c = get_location_history_orders [where env = working_tracking_env and d = three_fixes_db
      and rq = ?rq and i = "''EMG-1''" and ?f1.0 = "fix_at 1000" and ?f2.0 = "fix_at 2000"
      and ?f3.0 = "fix_at 3000" and n = 2]
  note s = c [THEN conjunct2, THEN conjunct2, THEN conjunct2, THEN conjunct2, THEN conjunct2,
      THEN conjunct2, rule_format, OF h]
  from s m t show ?thesis
    by (simp add: response_timestamps_def location_json_def item_dict_def fix_at_def py_get_def)
qed

section \<open>The length of the alert text\<close>

lemma tracking_danger_message_length:
  "58 \<le> length (tracking_danger_message v t dd)"
  by (simp add: tracking_danger_message_def)

lemma tracking_sms_message_length:
  "length (tracking_sms_message env dm iid pl) =
     138 + length dm + 2 * length iid + length pl + length (tr_now_hms env)"
  by (simp add: tracking_sms_message_def ORIGINATOR_NUMBER_def)

lemma alert_message_long: "196 \<le> length (alert_message env rq)"
proof -
  have "58 \<le> length (tracking_danger_message
          (case rq_victimName rq of None \<Rightarrow> ''Unknown Person'' | Some v \<Rightarrow> v)
          (case rq_detectionType rq of None \<Rightarrow> ''emergency'' | Some t \<Rightarrow> t)
          (case rq_detectionData rq of
             None \<Rightarrow> \<lparr>detectedWords = None, volume = None\<rparr> | Some dd \<Rightarrow> dd))"
    by (rule tracking_danger_message_length)
  then show ?thesis
    unfolding alert_message_def tracking_sms_message_length by linarith
qed

lemma primary_length:
  "length (primary_sms_text env v loc c) =
     131 + length v + length (cl_placeName loc) + length (cl_lat loc) + length (cl_lon loc)
       + length (cl_mapLink loc) + length (cl_local_time env) + length (str_int c)"
  by (simp add: primary_sms_text_def)

lemma short_length:
  "length (short_sms_text env v loc) =
     78 + length v + length (cl_lat loc) + length (cl_lon loc)
       + length (cl_mapLink loc) + length (cl_local_time env)"
  by (simp add: short_sms_text_def)

lemma short_shorter:
  "length (short_sms_text env v loc) < length (primary_sms_text env v loc c)"
  by (simp add: primary_length short_length)

lemma compose_cases:
  "compose_sms_text env v loc c =
     (if 160 < length (primary_sms_text env v loc c) then short_sms_text env v loc
      else primary_sms_text env v loc c)"
  by (simp add: compose_sms_text_def Let_def)

lemma cl_contact_result_messages:
  "c \<in> set (snd (cl_contact_result env t k ct)) \<Longrightarrow> cl_call_message c = t"
  by (auto simp: cl_contact_result_def Let_def cl_call_message_def split: sum.splits if_splits)

lemma cl_loop_messages:
  "c \<in> set (snd (cl_loop env t k cs)) \<Longrightarrow> cl_call_message c = t"
proof (induction cs arbitrary: k)
  case Nil
  then show ?case by simp
next
  case (Cons ct cs)
  then show ?case
    by (auto simp: split_beta Let_def dest: cl_contact_result_messages)
qed

lemma send_emergency_sms_messages:
  "c \<in> set (snd (send_emergency_sms env profile loc pct)) \<Longrightarrow>
     cl_call_message c = compose_sms_text env (victim_name_of profile) loc pct"
  by (auto simp: send_emergency_sms_def Let_def victim_name_of_def dest: cl_loop_messages
      split: if_splits)


text \<open>
  Claim C5, as stated, fails.  In \<open>send_emergency_sms\<close> the primary text for the demo
  profile and the Miami coordinates is longer than 160 characters, the short template is
  used, and the short text has 171 characters.  The tracking variant has no shortening step
  at all: for the empty request it hands a message of 271 characters to the provider.
\<close>

theorem compose_sms_text_counterexample:
  "160 < length (primary_sms_text complete_example_env ''Carlos Perez'' miami_coordinates 90)
   \<and> compose_sms_text complete_example_env ''Carlos Perez'' miami_coordinates 90
       = short_sms_text complete_example_env ''Carlos Perez'' miami_coordinates
   \<and> length (compose_sms_text complete_example_env ''Carlos Perez'' miami_coordinates 90) = 171
   \<and> map length (sent_messages (snd (snd
         (handle_jury_emergency_alert working_tracking_env empty_db empty_request)))) = [271]"
proof -
  have p: "160 < length (primary_sms_text complete_example_env ''Carlos Perez'' miami_coordinates 90)"
    by (simp add: primary_length miami_coordinates_def complete_example_env_def)
  have s: "length (short_sms_text complete_example_env ''Carlos Perez'' miami_coordinates) = 171"
    by (simp add: short_length miami_coordinates_def complete_example_env_def)
  have t: "length (alert_message working_tracking_env empty_request) = 271"
    by (simp add: alert_message_def tracking_sms_message_length tracking_danger_message_def
        empty_request_def empty_location_def working_tracking_env_def py_upper_def)
  show ?thesis
    using p s t
    by (simp add: compose_cases alert_sent_messages) (simp add: working_tracking_env_def)
qed

text \<open>
  Claim C5, amended.  In \<open>send_emergency_sms\<close> an alert whose primary text is longer than
  160 characters is rendered again with the short template, and the text so chosen is the
  one handed to Pinpoint and to SNS for every contact.  The short text is always shorter
  than the primary one but has no bound of its own: it has 78 characters plus the victim
  name, the two coordinates, the map link and the time, so the text handed over is within
  160 characters exactly when those five together have at most 82.  The tracking variant's
  \<open>handle_jury_emergency_alert\<close> does not shorten: the message it hands over, where the
  messaging client can be created, is the composed one, which always has at least 196
  characters.
\<close>

theorem alert_text_length:
  "compose_sms_text env v loc c =
     (if 160 < length (primary_sms_text env v loc c) then short_sms_text env v loc
      else primary_sms_text env v loc c)
   \<and> length (short_sms_text env v loc) < length (primary_sms_text env v loc c)
   \<and> length (short_sms_text env v loc) =
       78 + length v + length (cl_lat loc) + length (cl_lon loc) + length (cl_mapLink loc)
         + length (cl_local_time env)
   \<and> (length (compose_sms_text env v loc c) \<le> 160 \<longleftrightarrow>
        length v + length (cl_lat loc) + length (cl_lon loc) + length (cl_mapLink loc)
          + length (cl_local_time env) \<le> 82)
   \<and> (\<forall>call\<in>set (snd (send_emergency_sms env profile loc c)).
         cl_call_message call = compose_sms_text env (victim_name_of profile) loc c)
   \<and> sent_messages (snd (snd (handle_jury_emergency_alert tenv d rq))) =
       (if tr_get_sms_client_error tenv = None then [alert_message tenv rq] else [])
   \<and> 196 \<le> length (alert_message tenv rq)"
proof -
  have b: "length (compose_sms_text env v loc c) \<le> 160 \<longleftrightarrow>
        length v + length (cl_lat loc) + length (cl_lon loc) + length (cl_mapLink loc)
          + length (cl_local_time env) \<le> 82"
    using short_shorter [of env v loc c] by (auto simp: compose_cases short_length)
  have m: "\<forall>call\<in>set (snd (send_emergency_sms env profile loc c)).
         cl_call_message call = compose_sms_text env (victim_name_of profile) loc c"
    using send_emergency_sms_messages by blast
  show ?thesis
    by (intro conjI)
       (rule compose_cases short_shorter short_length b m alert_sent_messages alert_message_long)+
qed

theorem alert_text_length_witness:
  "map cl_call_message
     (snd (send_emergency_sms complete_example_env (fetch_user_profile_jury ''user-123'')
             miami_coordinates 90))
     = replicate 3 (short_sms_text complete_example_env ''Carlos Perez'' miami_coordinates)
   \<and> length (short_sms_text complete_example_env ''Carlos Perez'' miami_coordinates) = 171
   \<and> compose_sms_text complete_example_env ''Carlos Perez''
        (miami_coordinates\<lparr>cl_mapLink := ''https://g.co/m''\<rparr>) 90
       = short_sms_text complete_example_env ''Carlos Perez''
           (miami_coordinates\<lparr>cl_mapLink := ''https://g.co/m''\<rparr>)
   \<and> length (compose_sms_text complete_example_env ''Carlos Perez''
                (miami_coordinates\<lparr>cl_mapLink := ''https://g.co/m''\<rparr>) 90) = 142"
proof -
  let ?p = "fetch_user_profile_jury ''user-123''"
  let ?loc = "miami_coordinates\<lparr>cl_mapLink := ''https://g.co/m''\<rparr>"
  note t = alert_text_length [where env = complete_example_env and v = "''Carlos Perez''"
      and loc = miami_coordinates and c = 90 and profile = ?p]
  note u = alert_text_length [where env = complete_example_env and v = "''Carlos Perez''"
      and loc = ?loc and c = 90]
  have v: "victim_name_of ?p = ''Carlos Perez''"
    by (simp add: victim_name_of_def fetch_user_profile_jury_def)
  have calls: "length (snd (send_emergency_sms complete_example_env ?p miami_coordinates 90)) = 3"
    by (simp add: send_emergency_sms_def fetch_user_profile_jury_def cl_contact_result_def
        send_pinpoint_sms_def complete_example_env_def truthy_str_def Let_def)
  have p: "160 < length (primary_sms_text complete_example_env ''Carlos Perez'' miami_coordinates 90)"
    by (simp add: primary_length miami_coordinates_def complete_example_env_def)
  have p': "160 < length (primary_sms_text complete_example_env ''Carlos Perez'' ?loc 90)"
    by (simp add: primary_length miami_coordinates_def complete_example_env_def)
  from t [THEN conjunct2, THEN conjunct2, THEN conjunct2, THEN conjunct2, THEN conjunct1]
  have "\<forall>m\<in>set (map cl_call_message
          (snd (send_emergency_sms complete_example_env ?p miami_coordinates 90))).
          m = short_sms_text complete_example_env ''Carlos Perez'' miami_coordinates"
    using t [THEN conjunct1] p by (simp add: v)
  then have a: "map cl_call_message
     (snd (send_emergency_sms complete_example_env ?p miami_coordinates 90))
     = replicate 3 (short_sms_text complete_example_env ''Carlos Perez'' miami_coordinates)"
    using calls by (metis length_map replicate_length_same)
  have b: "length (short_sms_text complete_example_env ''Carlos Perez'' miami_coordinates) = 171"
    using t [THEN conjunct2, THEN conjunct2, THEN conjunct1]
    by (simp add: miami_coordinates_def complete_example_env_def)
  have c: "compose_sms_text complete_example_env ''Carlos Perez'' ?loc 90
       = short_sms_text complete_example_env ''Carlos Perez'' ?loc"
    using u [THEN conjunct1] p' by simp
  have d: "length (short_sms_text complete_example_env ''Carlos Perez'' ?loc) = 142"
    using u [THEN conjunct2, THEN conjunct2, THEN conjunct1]
    by (simp add: miami_coordinates_def complete_example_env_def)
  from a b c d show ?thesis by simp
qed

end
